theory Spec2Isabelle
  imports Complex_Main
begin

section \<open>Gaussian splatting utilities: tensors, errors and math kernels\<close>

text \<open>
  Embedding of \<^verbatim>\<open>src/model/render/gaussian_utils.py\<close>. Floating-point numbers are
  modelled as reals. A tensor of rank two is a list of rows, a tensor of rank three a list
  of matrices; every row of a tensor has the same length. The leading (batch) axis of all
  per-primitive tensors is the list itself.
\<close>

datatype error =
    NotImplementedError
  | AssertionError
  | ValueError
  | IndexError
  | RuntimeError
  | AttributeError

type_synonym tensor2 = "real list list"
type_synonym tensor3 = "real list list list"

text \<open>\<^verbatim>\<open>strip_lowerdiag\<close>: the six upper-triangular entries of each 3x3 matrix of the batch.\<close>

definition strip_lowerdiag :: "tensor3 \<Rightarrow> tensor2" where
  "strip_lowerdiag L =
     map (\<lambda>M. [M ! 0 ! 0, M ! 0 ! 1, M ! 0 ! 2, M ! 1 ! 1, M ! 1 ! 2, M ! 2 ! 2]) L"

definition strip_symmetric :: "tensor3 \<Rightarrow> tensor2" where
  "strip_symmetric symm = strip_lowerdiag symm"

text \<open>
  \<^verbatim>\<open>build_rotation\<close>, one quaternion row: the row is divided by its norm (all its columns),
  then columns 0..3 are read as r, x, y, z. This is the function in exact real arithmetic;
  for a row of norm zero the code divides by zero (NaN) where the reals give 0. The same
  function in the single-precision arithmetic of the tensors is \<open>build_rotation_f32\<close> below.
\<close>

definition build_rotation_row :: "real list \<Rightarrow> real list list" where
  "build_rotation_row r0 =
     (let norm = sqrt (r0 ! 0 * r0 ! 0 + r0 ! 1 * r0 ! 1 + r0 ! 2 * r0 ! 2 + r0 ! 3 * r0 ! 3);
          q = map (\<lambda>v. v / norm) r0;
          r = q ! 0; x = q ! 1; y = q ! 2; z = q ! 3
      in [[1 - 2 * (y * y + z * z), 2 * (x * y - r * z), 2 * (x * z + r * y)],
          [2 * (x * y + r * z), 1 - 2 * (x * x + z * z), 2 * (y * z - r * x)],
          [2 * (x * z - r * y), 2 * (y * z + r * x), 1 - 2 * (x * x + y * y)]])"

text \<open>
  The batched function: reading column 3 of a tensor with fewer than four columns raises
  IndexError.
\<close>

definition build_rotation :: "tensor2 \<Rightarrow> error + tensor3" where
  "build_rotation r =
     (if list_ex (\<lambda>row. length row < 4) r then Inl IndexError
      else Inr (map build_rotation_row r))"

text \<open>Product and transpose of 3x3 matrices (the operands are 3x3 by construction).\<close>

definition matmul3 :: "real list list \<Rightarrow> real list list \<Rightarrow> real list list" where
  "matmul3 A B =
     map (\<lambda>i. map (\<lambda>j. A ! i ! 0 * B ! 0 ! j + A ! i ! 1 * B ! 1 ! j + A ! i ! 2 * B ! 2 ! j)
       [0, 1, 2]) [0, 1, 2]"

definition transpose3 :: "real list list \<Rightarrow> real list list" where
  "transpose3 A = map (\<lambda>i. map (\<lambda>j. A ! j ! i) [0, 1, 2]) [0, 1, 2]"

text \<open>
  Batched \<^verbatim>\<open>A @ B\<close>: equal batch sizes multiply pairwise, a batch of one is broadcast,
  anything else is a shape error.
\<close>

definition batched_matmul :: "tensor3 \<Rightarrow> tensor3 \<Rightarrow> error + tensor3" where
  "batched_matmul A B =
     (if length A = length B then Inr (map2 matmul3 A B)
      else if length A = 1 then Inr (map (matmul3 (hd A)) B)
      else if length B = 1 then Inr (map (\<lambda>M. matmul3 M (hd B)) A)
      else Inl RuntimeError)"

definition build_scaling_rotation :: "tensor2 \<Rightarrow> tensor2 \<Rightarrow> error + tensor3" where
  "build_scaling_rotation s r =
     (case build_rotation r of
        Inl e \<Rightarrow> Inl e
      | Inr R \<Rightarrow>
          if list_ex (\<lambda>row. length row < 3) s then Inl IndexError
          else batched_matmul R
                 (map (\<lambda>row. [[row ! 0, 0, 0], [0, row ! 1, 0], [0, 0, row ! 2]]) s))"

definition build_covariance_from_scaling_rotation ::
    "tensor2 \<Rightarrow> real \<Rightarrow> tensor2 \<Rightarrow> error + tensor2" where
  "build_covariance_from_scaling_rotation scaling scaling_modifier rotation =
     (case build_scaling_rotation (map (map (\<lambda>v. scaling_modifier * v)) scaling) rotation of
        Inl e \<Rightarrow> Inl e
      | Inr L \<Rightarrow> Inr (strip_symmetric (map (\<lambda>M. matmul3 M (transpose3 M)) L)))"

subsection \<open>Colour conversion\<close>

definition C0 :: real where
  "C0 = 0.28209479177387814"

definition RGB2SH :: "real \<Rightarrow> real" where
  "RGB2SH rgb = (rgb - 0.5) / C0"

definition SH2RGB :: "real \<Rightarrow> real" where
  "SH2RGB sh = sh * C0 + 0.5"

section \<open>Single-precision arithmetic\<close>

text \<open>
  The tensors hold single-precision numbers (the library's default type). A value is a
  finite real, an infinity or NaN. An operation on finite values computes the exact result
  and rounds it to the nearest representable number, ties to even, with gradual underflow
  below 2^-126 and overflow to infinity from 2^128. The sign of zero is not represented:
  the only divisor in \<^verbatim>\<open>build_rotation\<close> is a norm, the square root of a sum of squares,
  which is never negative zero.
\<close>

datatype f32 = Finite real | PosInf | NegInf | NaN

definition pow2 :: "int \<Rightarrow> real" where
  "pow2 e = (if 0 \<le> e then 2 ^ nat e else 1 / 2 ^ nat (- e))"

definition round_half_even :: "real \<Rightarrow> int" where
  "round_half_even t =
     (let f = \<lfloor>t\<rfloor>
      in if t - of_int f < 1 / 2 then f
         else if 1 / 2 < t - of_int f then f + 1
         else if even f then f else f + 1)"

text \<open>Rounding of an exact result to single precision.\<close>

definition round32 :: "real \<Rightarrow> f32" where
  "round32 v =
     (let e = (if \<bar>v\<bar> < pow2 (- 126) then - 126 else \<lfloor>log 2 \<bar>v\<bar>\<rfloor>);
          ulp = pow2 (e - 23);
          r = ulp * of_int (round_half_even (v / ulp))
      in if pow2 128 \<le> \<bar>r\<bar> then (if 0 < v then PosInf else NegInf) else Finite r)"

fun f32_neg :: "f32 \<Rightarrow> f32" where
  "f32_neg (Finite a) = Finite (- a)"
| "f32_neg PosInf = NegInf"
| "f32_neg NegInf = PosInf"
| "f32_neg NaN = NaN"

fun f32_add :: "f32 \<Rightarrow> f32 \<Rightarrow> f32" where
  "f32_add NaN b = NaN"
| "f32_add a NaN = NaN"
| "f32_add (Finite a) (Finite b) = round32 (a + b)"
| "f32_add PosInf NegInf = NaN"
| "f32_add NegInf PosInf = NaN"
| "f32_add PosInf b = PosInf"
| "f32_add NegInf b = NegInf"
| "f32_add (Finite a) b = b"

definition f32_sub :: "f32 \<Rightarrow> f32 \<Rightarrow> f32" where
  "f32_sub a b = f32_add a (f32_neg b)"

fun f32_sign :: "f32 \<Rightarrow> real" where
  "f32_sign (Finite a) = sgn a"
| "f32_sign PosInf = 1"
| "f32_sign NegInf = - 1"
| "f32_sign NaN = 0"

fun f32_mul :: "f32 \<Rightarrow> f32 \<Rightarrow> f32" where
  "f32_mul NaN b = NaN"
| "f32_mul a NaN = NaN"
| "f32_mul (Finite a) (Finite b) = round32 (a * b)"
| "f32_mul a b =
     (if f32_sign a * f32_sign b = 0 then NaN
      else if 0 < f32_sign a * f32_sign b then PosInf else NegInf)"

fun f32_div :: "f32 \<Rightarrow> f32 \<Rightarrow> f32" where
  "f32_div NaN b = NaN"
| "f32_div a NaN = NaN"
| "f32_div (Finite a) (Finite b) =
     (if b = 0 then (if a = 0 then NaN else if 0 < a then PosInf else NegInf)
      else round32 (a / b))"
| "f32_div (Finite a) b = Finite 0"
| "f32_div a (Finite b) = (if 0 \<le> f32_sign a * (if b < 0 then - 1 else 1) then PosInf else NegInf)"
| "f32_div a b = NaN"

fun f32_sqrt :: "f32 \<Rightarrow> f32" where
  "f32_sqrt (Finite a) = (if a < 0 then NaN else round32 (sqrt a))"
| "f32_sqrt PosInf = PosInf"
| "f32_sqrt NegInf = NaN"
| "f32_sqrt NaN = NaN"

text \<open>\<^verbatim>\<open>build_rotation\<close>, operation by operation in single precision.\<close>

definition build_rotation_row_f32 :: "f32 list \<Rightarrow> f32 list list" where
  "build_rotation_row_f32 r0 =
     (let norm = f32_sqrt
                   (f32_add
                      (f32_add
                         (f32_add (f32_mul (r0 ! 0) (r0 ! 0)) (f32_mul (r0 ! 1) (r0 ! 1)))
                         (f32_mul (r0 ! 2) (r0 ! 2)))
                      (f32_mul (r0 ! 3) (r0 ! 3)));
          q = map (\<lambda>v. f32_div v norm) r0;
          r = q ! 0; x = q ! 1; y = q ! 2; z = q ! 3;
          one = Finite 1; two = Finite 2
      in [[f32_sub one (f32_mul two (f32_add (f32_mul y y) (f32_mul z z))),
           f32_mul two (f32_sub (f32_mul x y) (f32_mul r z)),
           f32_mul two (f32_add (f32_mul x z) (f32_mul r y))],
          [f32_mul two (f32_add (f32_mul x y) (f32_mul r z)),
           f32_sub one (f32_mul two (f32_add (f32_mul x x) (f32_mul z z))),
           f32_mul two (f32_sub (f32_mul y z) (f32_mul r x))],
          [f32_mul two (f32_sub (f32_mul x z) (f32_mul r y)),
           f32_mul two (f32_add (f32_mul y z) (f32_mul r x)),
           f32_sub one (f32_mul two (f32_add (f32_mul x x) (f32_mul y y)))]])"

definition build_rotation_f32 :: "f32 list list \<Rightarrow> error + f32 list list list" where
  "build_rotation_f32 r =
     (if list_ex (\<lambda>row. length row < 4) r then Inl IndexError
      else Inr (map build_rotation_row_f32 r))"

section \<open>Camera\<close>

text \<open>
  The constructor of \<^verbatim>\<open>Camera\<close>. The matrix inverse of the tensor library is a parameter:
  it returns \<open>None\<close> on a singular pose, where the library raises. The intrinsics are a
  tensor of rank one, read at positions 0..3.
\<close>

record Camera =
  C2W :: "real list list"
  W2C :: "real list list"
  znear :: real
  zfar :: real
  h :: int
  w :: int
  tanfovX :: real
  tanfovY :: real
  fovX :: real
  fovY :: real
  shiftX :: real
  shiftY :: real
  world_view_transform :: "real list list"
  projection_matrix :: "real list list"
  full_proj_transform :: "real list list"
  camera_center :: "real list"

definition transpose4 :: "real list list \<Rightarrow> real list list" where
  "transpose4 A = map (\<lambda>i. map (\<lambda>j. A ! j ! i) [0, 1, 2, 3]) [0, 1, 2, 3]"

definition matmul4 :: "real list list \<Rightarrow> real list list \<Rightarrow> real list list" where
  "matmul4 A B =
     map (\<lambda>i. map (\<lambda>j. A ! i ! 0 * B ! 0 ! j + A ! i ! 1 * B ! 1 ! j
                        + A ! i ! 2 * B ! 2 ! j + A ! i ! 3 * B ! 3 ! j)
       [0, 1, 2, 3]) [0, 1, 2, 3]"

definition getProjectionMatrix ::
    "real \<Rightarrow> real \<Rightarrow> real \<Rightarrow> real \<Rightarrow> real \<Rightarrow> real \<Rightarrow> real list list" where
  "getProjectionMatrix zn zf fovx fovy shiftx shifty =
     (let tanHalfFovY = tan (fovy / 2);
          tanHalfFovX = tan (fovx / 2);
          top = tanHalfFovY * zn;
          bottom = - top;
          right = tanHalfFovX * zn;
          left = - right;
          z_sign = 1
      in [[2 * zn / (right - left), 0, (right + left) / (right - left) + shiftx, 0],
          [0, 2 * zn / (top - bottom), (top + bottom) / (top - bottom) + shifty, 0],
          [0, 0, z_sign * zf / (zf - zn), - (zf * zn) / (zf - zn)],
          [0, 0, z_sign, 0]])"

definition Camera_init ::
    "(real list list \<Rightarrow> real list list option) \<Rightarrow> real list list \<Rightarrow> real list
       \<Rightarrow> int \<Rightarrow> int \<Rightarrow> error + Camera" where
  "Camera_init matrix_inverse c2w fxfycxcy height width =
     (case matrix_inverse c2w of
        None \<Rightarrow> Inl RuntimeError
      | Some w2c \<Rightarrow>
          if length fxfycxcy < 4 then Inl IndexError
          else
            (let fx = fxfycxcy ! 0; fy = fxfycxcy ! 1; cx = fxfycxcy ! 2; cy = fxfycxcy ! 3;
                 tx = 1 / (2 * fx);
                 ty = 1 / (2 * fy);
                 fx' = 2 * arctan tx;
                 fy' = 2 * arctan ty;
                 sx = 2 * cx - 1;
                 sy = 2 * cy - 1;
                 wvt = transpose4 w2c;
                 pm = transpose4 (getProjectionMatrix 0.01 100 fx' fy' sx sy)
             in Inr \<lparr>C2W = c2w, W2C = w2c, znear = 0.01, zfar = 100,
                      h = height, w = width,
                      tanfovX = tx, tanfovY = ty, fovX = fx', fovY = fy',
                      shiftX = sx, shiftY = sy,
                      world_view_transform = wvt,
                      projection_matrix = pm,
                      full_proj_transform = matmul4 wvt pm,
                      camera_center = map (\<lambda>i. c2w ! i ! 3) [0, 1, 2]\<rparr>))"

section \<open>The Gaussian model\<close>

text \<open>
  The activation policy is chosen by a string at construction; an unknown string raises.
  After construction the model holds one of three policies together with the parameters
  that policy stores.
\<close>

datatype scaling_activation =
    Exp
  | Softplus (scale_multi_act: real)
  | Sigmoid (scale_min_act: real) (scale_max_act: real)

text \<open>
  The DC colour field holds a tensor of rank two (\<open>N x C\<close>, as \<^verbatim>\<open>save_ply\<close> needs it for
  degree 0) or of rank three (as \<^verbatim>\<open>load_ply\<close> builds it).
\<close>

datatype features = Features2 tensor2 | Features3 tensor3

record GaussianModel =
  sh_degree :: int
  xyz :: tensor2
  features_dc :: features
  features_rest :: "tensor3 option"
  scaling :: tensor2
  rotation :: tensor2
  opacity :: tensor2
  scaling_activation_type :: scaling_activation

definition setup_functions :: "string \<Rightarrow> real \<Rightarrow> real \<Rightarrow> real \<Rightarrow> error + scaling_activation" where
  "setup_functions ty mn mx mu =
     (if ty = ''exp'' then Inr Exp
      else if ty = ''softplus'' then Inr (Softplus mu)
      else if ty = ''sigmoid'' then Inr (Sigmoid mn mx)
      else Inl NotImplementedError)"

text \<open>
  \<^verbatim>\<open>__init__\<close>: every tensor field starts empty; the rest field exists only for a positive
  degree. The degree itself is stored as given.
\<close>

definition GaussianModel_init ::
    "int \<Rightarrow> string \<Rightarrow> real \<Rightarrow> real \<Rightarrow> real \<Rightarrow> error + GaussianModel" where
  "GaussianModel_init deg ty mn mx mu =
     (case setup_functions ty mn mx mu of
        Inl e \<Rightarrow> Inl e
      | Inr act \<Rightarrow>
          Inr \<lparr>sh_degree = deg, xyz = [], features_dc = Features2 [],
               features_rest = (if deg > 0 then Some [] else None),
               scaling = [], rotation = [], opacity = [],
               scaling_activation_type = act\<rparr>)"

text \<open>
  \<^verbatim>\<open>set_data\<close>. The slice \<^verbatim>\<open>features[:, 1:, :]\<close> needs a tensor of rank three.
\<close>

definition set_data ::
    "GaussianModel \<Rightarrow> tensor2 \<Rightarrow> features \<Rightarrow> tensor2 \<Rightarrow> tensor2 \<Rightarrow> tensor2
       \<Rightarrow> error + GaussianModel" where
  "set_data m xyz' feats scaling' rotation' opacity' =
     (if sh_degree m > 0 then
        (case feats of
           Features2 f \<Rightarrow> Inl IndexError
         | Features3 f \<Rightarrow>
             Inr (m\<lparr>xyz := xyz', features_dc := feats,
                     features_rest := Some (map (drop 1) f),
                     scaling := scaling', rotation := rotation', opacity := opacity'\<rparr>))
      else
        Inr (m\<lparr>xyz := xyz', features_dc := feats, features_rest := None,
                scaling := scaling', rotation := rotation', opacity := opacity'\<rparr>))"

definition sigmoid :: "real \<Rightarrow> real" where
  "sigmoid v = 1 / (1 + exp (- v))"

text \<open>The library's softplus is linear above its threshold 20.\<close>

definition softplus :: "real \<Rightarrow> real" where
  "softplus v = (if v > 20 then v else ln (1 + exp v))"

definition decode_scale :: "scaling_activation \<Rightarrow> real \<Rightarrow> real" where
  "decode_scale act v =
     (case act of
        Exp \<Rightarrow> exp v
      | Softplus mu \<Rightarrow> softplus v * mu
      | Sigmoid mn mx \<Rightarrow> mn + (mx - mn) * sigmoid v)"

definition get_scaling :: "GaussianModel \<Rightarrow> tensor2" where
  "get_scaling m = map (map (decode_scale (scaling_activation_type m))) (scaling m)"

definition get_xyz :: "GaussianModel \<Rightarrow> tensor2" where
  "get_xyz m = xyz m"

definition get_opacity :: "GaussianModel \<Rightarrow> tensor2" where
  "get_opacity m = map (map sigmoid) (opacity m)"

definition get_covariance :: "GaussianModel \<Rightarrow> real \<Rightarrow> error + tensor2" where
  "get_covariance m scaling_modifier =
     build_covariance_from_scaling_rotation (get_scaling m) scaling_modifier (rotation m)"

section \<open>Scene files\<close>

text \<open>
  A scene file is one element array: the property list (name and storage type, in order)
  and one row of values per primitive. Writing the array to disk and reading it back is
  the file library's business and is taken to return the same array. Storing a
  single-precision value in an \<^verbatim>\<open>f4\<close> field is exact; rounding to half precision is a
  parameter of \<^verbatim>\<open>save_ply\<close>, as is the colour map of the colour-coded export.
\<close>

datatype dtype = F4 | F2 | U1

record ply =
  properties :: "(string \<times> dtype) list"
  elements :: "real list list"

text \<open>Decimal formatting of a loop index, as in \<^verbatim>\<open>f"f_dc_{i}"\<close>.\<close>

definition digit_char :: "nat \<Rightarrow> char" where
  "digit_char d = ''0123456789'' ! d"

fun str_nat :: "nat \<Rightarrow> string" where
  "str_nat n = (if n < 10 then [digit_char n] else str_nat (n div 10) @ [digit_char (n mod 10)])"

declare str_nat.simps [simp del]

definition named_fields :: "string \<Rightarrow> dtype \<Rightarrow> nat \<Rightarrow> (string \<times> dtype) list" where
  "named_fields pre ty n = map (\<lambda>i. (pre @ str_nat i, ty)) [0..<n]"

text \<open>
  \<^verbatim>\<open>shape[1]\<close> and \<^verbatim>\<open>shape[2]\<close> of a tensor held as nested lists. A tensor without rows
  carries no column count in this representation and reads as 0 columns.
\<close>

definition shape1 :: "'a list list \<Rightarrow> nat" where
  "shape1 t = (case t of [] \<Rightarrow> 0 | row # _ \<Rightarrow> length row)"

definition shape2 :: "'a list list list \<Rightarrow> nat" where
  "shape2 t = (case t of [] \<Rightarrow> 0 | M # _ \<Rightarrow> shape1 M)"

text \<open>The number of \<^verbatim>\<open>f_dc_\<close> fields of \<^verbatim>\<open>construct_dtypes\<close>.\<close>

definition dc_field_count :: "GaussianModel \<Rightarrow> bool \<Rightarrow> error + nat" where
  "dc_field_count m use_fp16 =
     (if \<not> use_fp16 \<and> \<not> sh_degree m > 0 then
        (case features_dc m of
           Features2 f \<Rightarrow> Inr (shape1 f)
         | Features3 f \<Rightarrow> Inr (shape1 f))
      else
        (case features_dc m of
           Features2 f \<Rightarrow> Inl IndexError
         | Features3 f \<Rightarrow> Inr (shape1 f * shape2 f)))"

text \<open>The number of \<^verbatim>\<open>f_rest_\<close> fields of \<^verbatim>\<open>construct_dtypes\<close>.\<close>

definition rest_field_count :: "GaussianModel \<Rightarrow> bool \<Rightarrow> bool \<Rightarrow> error + nat" where
  "rest_field_count m use_fp16 enable_gs_viewer =
     (if \<not> use_fp16 \<and> enable_gs_viewer then
        (if \<not> sh_degree m \<le> 3 then Inl AssertionError
         else if sh_degree m > 0 then Inr (((3 + 1) ^ 2 - 1) * 3)
         else Inr 0)
      else if sh_degree m > 0 then
        (case features_rest m of
           None \<Rightarrow> Inl AttributeError
         | Some fr \<Rightarrow> Inr (shape1 fr * shape2 fr))
      else Inr 0)"

definition construct_dtypes :: "GaussianModel \<Rightarrow> bool \<Rightarrow> bool \<Rightarrow> error + (string \<times> dtype) list" where
  "construct_dtypes m use_fp16 enable_gs_viewer =
     (let fl = (if use_fp16 then F2 else F4) in
      case dc_field_count m use_fp16 of
        Inl e \<Rightarrow> Inl e
      | Inr ndc \<Rightarrow>
          (case rest_field_count m use_fp16 enable_gs_viewer of
             Inl e \<Rightarrow> Inl e
           | Inr nrest \<Rightarrow>
               Inr ([(''x'', fl), (''y'', fl), (''z'', fl),
                     (''red'', U1), (''green'', U1), (''blue'', U1)]
                    @ named_fields ''f_dc_'' fl ndc
                    @ named_fields ''f_rest_'' fl nrest
                    @ [(''opacity'', fl)]
                    @ named_fields ''scale_'' fl (shape1 (scaling m))
                    @ named_fields ''rot_'' fl (shape1 (rotation m)))))"

text \<open>\<^verbatim>\<open>t.transpose(1, 2).flatten(start_dim=1)\<close> on one primitive's matrix.\<close>

definition transpose_mat :: "real list list \<Rightarrow> real list list" where
  "transpose_mat M = map (\<lambda>j. map (\<lambda>row. row ! j) M) [0..<shape1 M]"

definition flatten_transposed :: "tensor3 \<Rightarrow> tensor2" where
  "flatten_transposed t = map (\<lambda>M. concat (transpose_mat M)) t"

text \<open>\<^verbatim>\<open>.clip(0.0, 255.0).astype(np.uint8)\<close>.\<close>

definition clip_uint8 :: "real \<Rightarrow> real" where
  "clip_uint8 v = of_int \<lfloor>min 255 (max 0 v)\<rfloor>"

text \<open>
  The scale written to the file: the logarithm of the decoded scale. Where the decoded scale
  is not positive the library's logarithm is minus infinity or NaN, which the reals do not
  have; \<open>ln\<close> is total and has some real value there.
\<close>

definition encode_scale :: "scaling_activation \<Rightarrow> real \<Rightarrow> real" where
  "encode_scale act v =
     (case act of
        Exp \<Rightarrow> v
      | Softplus mu \<Rightarrow> ln (softplus v * mu)
      | Sigmoid mn mx \<Rightarrow> ln (mn + (mx - mn) * sigmoid v))"

text \<open>
  \<^verbatim>\<open>np.concatenate(..., axis=1)\<close> of rank-two arrays: the row counts must agree.
\<close>

definition concatenate_axis1 :: "tensor2 list \<Rightarrow> error + tensor2" where
  "concatenate_axis1 ts =
     (case ts of
        [] \<Rightarrow> Inl ValueError
      | t # _ \<Rightarrow>
          if list_all (\<lambda>u. length u = length t) ts
          then Inr (map (\<lambda>n. concat (map (\<lambda>u. u ! n) ts)) [0..<length t])
          else Inl ValueError)"

text \<open>
  Zero padding of the rest coefficients up to 45 columns (viewer variant); the assignment
  into the zero array broadcasts a single row.
\<close>

definition pad_rest :: "nat \<Rightarrow> tensor2 \<Rightarrow> error + tensor2" where
  "pad_rest n f_rest =
     (if shape1 f_rest < 3 * ((3 + 1) ^ 2 - 1) then
        (if length f_rest = n
         then Inr (map (\<lambda>row. row @ replicate (3 * ((3 + 1) ^ 2 - 1) - shape1 f_rest) 0) f_rest)
         else if length f_rest = 1
         then Inr (replicate n (hd f_rest @ replicate (3 * ((3 + 1) ^ 2 - 1) - shape1 f_rest) 0))
         else Inl ValueError)
      else Inr f_rest)"

text \<open>
  The value stored in a field: \<^verbatim>\<open>f4\<close> keeps a single-precision value, \<^verbatim>\<open>f2\<close> rounds it,
  \<^verbatim>\<open>u1\<close> truncates towards zero and keeps the low byte.
\<close>

definition store :: "(real \<Rightarrow> real) \<Rightarrow> dtype \<Rightarrow> real \<Rightarrow> real" where
  "store half ty v =
     (case ty of
        F4 \<Rightarrow> v
      | F2 \<Rightarrow> half v
      | U1 \<Rightarrow> of_int ((if v < 0 then \<lceil>v\<rceil> else \<lfloor>v\<rfloor>) mod 256))"

definition linspace01 :: "nat \<Rightarrow> real list" where
  "linspace01 n = map (\<lambda>i. if n \<le> 1 then 0 else real i * (1 / real (n - 1))) [0..<n]"

definition dc_columns :: "GaussianModel \<Rightarrow> error + features" where
  "dc_columns m =
     (if sh_degree m > 0 then
        (case features_dc m of
           Features2 f \<Rightarrow> Inl IndexError
         | Features3 f \<Rightarrow> Inr (Features2 (flatten_transposed f)))
      else Inr (features_dc m))"

definition rest_columns :: "GaussianModel \<Rightarrow> error + tensor2 option" where
  "rest_columns m =
     (if sh_degree m > 0 then
        (case features_rest m of
           None \<Rightarrow> Inl AttributeError
         | Some fr \<Rightarrow> Inr (Some (flatten_transposed fr)))
      else Inr None)"

text \<open>
  \<^verbatim>\<open>save_ply\<close>. The errors come in the order of the source: the DC columns, the property
  list, the rest columns and their padding, the concatenation, the assignment of the rows
  to the element array (a row must have one value per property), and the description of the
  array for the file library, which has no half-precision property type and refuses the
  \<^verbatim>\<open>f2\<close> fields of \<^verbatim>\<open>use_fp16\<close>. Creating the directory of the path is not part of the model.
\<close>

definition save_ply ::
    "(real \<Rightarrow> real) \<Rightarrow> (real \<Rightarrow> real list) \<Rightarrow> GaussianModel \<Rightarrow> bool \<Rightarrow> bool \<Rightarrow> bool
       \<Rightarrow> error + ply" where
  "save_ply half viridis m use_fp16 enable_gs_viewer color_code =
     (case dc_columns m of
        Inl e \<Rightarrow> Inl e
      | Inr f_dc \<Rightarrow>
     (case construct_dtypes m use_fp16 enable_gs_viewer of
        Inl e \<Rightarrow> Inl e
      | Inr dtype_full \<Rightarrow>
     (case rest_columns m of
        Inl e \<Rightarrow> Inl e
      | Inr f_rest \<Rightarrow>
     (case (case f_rest of
              None \<Rightarrow> Inr None
            | Some fr \<Rightarrow>
                if enable_gs_viewer then map_sum id Some (pad_rest (length (xyz m)) fr)
                else Inr (Some fr)) of
        Inl e \<Rightarrow> Inl e
      | Inr f_rest' \<Rightarrow>
     (case f_dc of
        Features3 _ \<Rightarrow> Inl ValueError
      | Features2 dc \<Rightarrow>
          (let rgb = (if \<not> color_code then map (map (\<lambda>v. clip_uint8 (SH2RGB v * 255))) dc
                      else map (\<lambda>t. map (\<lambda>v. clip_uint8 (v * 255)) (take 3 (viridis t)))
                             (linspace01 (length (xyz m))));
               scale = map (map (encode_scale (scaling_activation_type m))) (scaling m)
           in case concatenate_axis1
                     ([xyz m, rgb, dc] @ (case f_rest' of None \<Rightarrow> [] | Some fr \<Rightarrow> [fr])
                      @ [opacity m, scale, rotation m]) of
                Inl e \<Rightarrow> Inl e
              | Inr attributes \<Rightarrow>
                  if list_all (\<lambda>row. length row = length dtype_full) attributes
                  then (if use_fp16 then Inl ValueError
                        else Inr \<lparr>properties = dtype_full,
                                  elements = map (\<lambda>row. map2 (\<lambda>(nm, ty) v. store half ty v)
                                                           dtype_full row) attributes\<rparr>)
                  else Inl ValueError))))))"

subsection \<open>Loading\<close>

primrec index_of :: "'a \<Rightarrow> 'a list \<Rightarrow> nat option" where
  "index_of a [] = None"
| "index_of a (x # xs) = (if x = a then Some 0 else map_option Suc (index_of a xs))"

text \<open>
  Positions of named fields, in the order asked; reading a field the element array does not
  have raises ValueError.
\<close>

fun field_indices :: "string list \<Rightarrow> string list \<Rightarrow> error + nat list" where
  "field_indices props [] = Inr []"
| "field_indices props (n # ns) =
     (case index_of n props of
        None \<Rightarrow> Inl ValueError
      | Some i \<Rightarrow>
          (case field_indices props ns of
             Inl e \<Rightarrow> Inl e
           | Inr js \<Rightarrow> Inr (i # js)))"

definition property_names :: "ply \<Rightarrow> string list" where
  "property_names f = map fst (properties f)"

text \<open>The \<open>N x k\<close> array whose columns are the given fields.\<close>

definition gather :: "ply \<Rightarrow> nat list \<Rightarrow> tensor2" where
  "gather f idxs = map (\<lambda>row. map (\<lambda>i. row ! i) idxs) (elements f)"

definition startswith :: "string \<Rightarrow> string \<Rightarrow> bool" where
  "startswith s pre = (take (length pre) s = pre)"

text \<open>\<^verbatim>\<open>x.split("_")[-1]\<close>: what follows the last underscore (all of x when there is none).\<close>

definition last_segment :: "string \<Rightarrow> string" where
  "last_segment s = rev (takeWhile (\<lambda>c. c \<noteq> CHR ''_'') (rev s))"

text \<open>
  \<^verbatim>\<open>int(s)\<close> on a string without white space or underscores: an optional sign and one or
  more decimal digits; anything else raises ValueError (here \<open>None\<close>).
\<close>

definition digit_value :: "char \<Rightarrow> nat option" where
  "digit_value c = index_of c ''0123456789''"

fun parse_digits :: "nat \<Rightarrow> string \<Rightarrow> nat option" where
  "parse_digits acc [] = Some acc"
| "parse_digits acc (c # cs) =
     (case digit_value c of
        None \<Rightarrow> None
      | Some d \<Rightarrow> parse_digits (10 * acc + d) cs)"

definition py_int :: "string \<Rightarrow> int option" where
  "py_int s =
     (case s of
        [] \<Rightarrow> None
      | c # cs \<Rightarrow>
          if c = CHR ''-'' then (if cs = [] then None
                                else map_option (\<lambda>n. - int n) (parse_digits 0 cs))
          else if c = CHR ''+'' then (if cs = [] then None
                                     else map_option int (parse_digits 0 cs))
          else map_option int (parse_digits 0 s))"

definition suffix_key :: "string \<Rightarrow> int option" where
  "suffix_key x = py_int (last_segment x)"

text \<open>
  \<^verbatim>\<open>sorted(names, key=lambda x: int(x.split("_")[-1]))\<close>: a stable sort; a name whose suffix
  is no integer raises ValueError.
\<close>

definition sorted_by_suffix :: "string list \<Rightarrow> error + string list" where
  "sorted_by_suffix names =
     (if list_all (\<lambda>x. suffix_key x \<noteq> None) names
      then Inr (sort_key (\<lambda>x. the (suffix_key x)) names)
      else Inl ValueError)"

definition names_with_prefix :: "ply \<Rightarrow> string \<Rightarrow> string list" where
  "names_with_prefix f pre = filter (\<lambda>x. startswith x pre) (property_names f)"

text \<open>The fields of the sorted names, read into an \<open>N x k\<close> array.\<close>

definition read_sorted :: "ply \<Rightarrow> string \<Rightarrow> error + tensor2" where
  "read_sorted f pre =
     (case sorted_by_suffix (names_with_prefix f pre) of
        Inl e \<Rightarrow> Inl e
      | Inr names \<Rightarrow>
          (case field_indices (property_names f) names of
             Inl e \<Rightarrow> Inl e
           | Inr idxs \<Rightarrow> Inr (gather f idxs)))"

text \<open>\<^verbatim>\<open>row.reshape(rows, cols)\<close> of a flat row of \<open>rows * cols\<close> values.\<close>

definition reshape :: "nat \<Rightarrow> nat \<Rightarrow> real list \<Rightarrow> real list list" where
  "reshape rows cols flat = map (\<lambda>c. take cols (drop (c * cols) flat)) [0..<rows]"

definition load_rest :: "ply \<Rightarrow> int \<Rightarrow> error + tensor3" where
  "load_rest f deg =
     (case sorted_by_suffix (names_with_prefix f ''f_rest_'') of
        Inl e \<Rightarrow> Inl e
      | Inr extra_f_names \<Rightarrow>
          if int (length extra_f_names) \<noteq> 3 * (deg + 1) ^ 2 - 3 then Inl AssertionError
          else
            (case field_indices (property_names f) extra_f_names of
               Inl e \<Rightarrow> Inl e
             | Inr idxs \<Rightarrow>
                 Inr (map (\<lambda>row. transpose_mat (reshape 3 (nat ((deg + 1) ^ 2 - 1)) row))
                        (gather f idxs))))"

definition load_ply :: "GaussianModel \<Rightarrow> ply \<Rightarrow> error + GaussianModel" where
  "load_ply m f =
     (case field_indices (property_names f)
             [''x'', ''y'', ''z'', ''opacity'', ''f_dc_0'', ''f_dc_1'', ''f_dc_2''] of
        Inl e \<Rightarrow> Inl e
      | Inr fixed \<Rightarrow>
     (case (if sh_degree m > 0 then map_sum id Some (load_rest f (sh_degree m)) else Inr None) of
        Inl e \<Rightarrow> Inl e
      | Inr features_extra \<Rightarrow>
     (case read_sorted f ''scale_'' of
        Inl e \<Rightarrow> Inl e
      | Inr scales \<Rightarrow>
     (case read_sorted f ''rot'' of
        Inl e \<Rightarrow> Inl e
      | Inr rots \<Rightarrow>
          Inr (m\<lparr>xyz := gather f (take 3 fixed),
                  features_dc := Features3 (map (\<lambda>row. [row]) (gather f (drop 4 fixed))),
                  features_rest := (case features_extra of
                                      None \<Rightarrow> features_rest m
                                    | Some fe \<Rightarrow> Some fe),
                  opacity := gather f [fixed ! 3],
                  scaling := scales,
                  rotation := rots\<rparr>)))))"

section \<open>Notions used to state the properties\<close>

text \<open>
  Determinant of a 3x3 matrix, by expansion along the first row.
\<close>

definition det3 :: "real list list \<Rightarrow> real" where
  "det3 M =
     M ! 0 ! 0 * (M ! 1 ! 1 * M ! 2 ! 2 - M ! 1 ! 2 * M ! 2 ! 1)
   - M ! 0 ! 1 * (M ! 1 ! 0 * M ! 2 ! 2 - M ! 1 ! 2 * M ! 2 ! 0)
   + M ! 0 ! 2 * (M ! 1 ! 0 * M ! 2 ! 1 - M ! 1 ! 1 * M ! 2 ! 0)"

definition identity3 :: "real list list" where
  "identity3 = [[1, 0, 0], [0, 1, 0], [0, 0, 1]]"

definition identity4 :: "real list list" where
  "identity4 = [[1, 0, 0, 0], [0, 1, 0, 0], [0, 0, 1, 0], [0, 0, 0, 1]]"

text \<open>
  The matrix formula of \<^verbatim>\<open>build_rotation\<close> on an already normalised quaternion.
\<close>

definition quat_matrix :: "real \<Rightarrow> real \<Rightarrow> real \<Rightarrow> real \<Rightarrow> real list list" where
  "quat_matrix r x y z =
     [[1 - 2 * (y * y + z * z), 2 * (x * y - r * z), 2 * (x * z + r * y)],
      [2 * (x * y + r * z), 1 - 2 * (x * x + z * z), 2 * (y * z - r * x)],
      [2 * (x * z - r * y), 2 * (y * z + r * x), 1 - 2 * (x * x + y * y)]]"

text \<open>
  The symmetric 3x3 matrix described by six packed entries xx, xy, xz, yy, yz, zz.
\<close>

definition unpack_symmetric :: "real list \<Rightarrow> real list list" where
  "unpack_symmetric c = [[c ! 0, c ! 1, c ! 2], [c ! 1, c ! 3, c ! 4], [c ! 2, c ! 4, c ! 5]]"

text \<open>
  The quadratic form \<open>v\<^sup>T M v\<close> of a 3x3 matrix.
\<close>

definition quadratic_form :: "real list list \<Rightarrow> real list \<Rightarrow> real" where
  "quadratic_form M v = (\<Sum>i<3. \<Sum>j<3. v ! i * M ! i ! j * v ! j)"

text \<open>
  Every row of a rank-two tensor has \<open>k\<close> columns.
\<close>

definition rows_of_width :: "nat \<Rightarrow> 'a list list \<Rightarrow> bool" where
  "rows_of_width k t = list_all (\<lambda>row. length row = k) t"

text \<open>
  Every matrix of a rank-three tensor has \<open>k\<close> rows of \<open>c\<close> columns.
\<close>

definition mats_of_shape :: "nat \<Rightarrow> nat \<Rightarrow> 'a list list list \<Rightarrow> bool" where
  "mats_of_shape k c t = list_all (\<lambda>M. length M = k \<and> rows_of_width c M) t"

text \<open>
  The value of a named property in row \<open>n\<close> of a file.
\<close>

definition field_value :: "ply \<Rightarrow> nat \<Rightarrow> string \<Rightarrow> real option" where
  "field_value f n name = map_option (\<lambda>i. elements f ! n ! i) (index_of name (property_names f))"

text \<open>
  The property list of a full-precision file without viewer padding, for three colour
  channels, three scale columns and four rotation columns.
\<close>

definition standard_dtypes :: "(string \<times> dtype) list" where
  "standard_dtypes =
     [(''x'', F4), (''y'', F4), (''z'', F4), (''red'', U1), (''green'', U1), (''blue'', U1),
      (''f_dc_0'', F4), (''f_dc_1'', F4), (''f_dc_2'', F4), (''opacity'', F4),
      (''scale_0'', F4), (''scale_1'', F4), (''scale_2'', F4),
      (''rot_0'', F4), (''rot_1'', F4), (''rot_2'', F4), (''rot_3'', F4)]"

text \<open>
  The property list of a full-precision viewer file of a model of positive degree.
\<close>

definition viewer_dtypes :: "(string \<times> dtype) list" where
  "viewer_dtypes =
     [(''x'', F4), (''y'', F4), (''z'', F4), (''red'', U1), (''green'', U1), (''blue'', U1),
      (''f_dc_0'', F4), (''f_dc_1'', F4), (''f_dc_2'', F4)]
     @ named_fields ''f_rest_'' F4 45
     @ [(''opacity'', F4), (''scale_0'', F4), (''scale_1'', F4), (''scale_2'', F4),
        (''rot_0'', F4), (''rot_1'', F4), (''rot_2'', F4), (''rot_3'', F4)]"

text \<open>
  Saving in the standard variant (full precision, no viewer padding, no colour coding) and
  loading the file into another model.
\<close>

definition round_trip ::
    "(real \<Rightarrow> real) \<Rightarrow> (real \<Rightarrow> real list) \<Rightarrow> GaussianModel \<Rightarrow> GaussianModel
       \<Rightarrow> error + GaussianModel" where
  "round_trip half viridis m fresh =
     (case save_ply half viridis m False False False of
        Inl e \<Rightarrow> Inl e
      | Inr f \<Rightarrow> load_ply fresh f)"

text \<open>
  Example models and files.
\<close>

definition constant_sigmoid_model :: GaussianModel where
  "constant_sigmoid_model =
     \<lparr>sh_degree = 0, xyz = [[1, 2, 3]], features_dc = Features2 [[0, 0, 0]],
      features_rest = None, scaling = [[0, 1, 2]], rotation = [[1, 0, 0, 0]],
      opacity = [[0]], scaling_activation_type = Sigmoid 0.3 0.3\<rparr>"

definition fresh_sigmoid_model :: GaussianModel where
  "fresh_sigmoid_model =
     \<lparr>sh_degree = 0, xyz = [], features_dc = Features2 [],
      features_rest = None, scaling = [], rotation = [],
      opacity = [], scaling_activation_type = Sigmoid 0.3 0.3\<rparr>"

definition exp_model :: GaussianModel where
  "exp_model =
     \<lparr>sh_degree = 0, xyz = [[1, 2, 3], [4, 5, 6]], features_dc = Features2 [[0, 0, 0], [1, 1, 1]],
      features_rest = None, scaling = [[0.1, 0.1, 0.1], [0.2, 0.2, 0.2]],
      rotation = [[1, 0, 0, 0], [1, 0, 0, 0]],
      opacity = [[0], [0]], scaling_activation_type = Exp\<rparr>"

definition degree1_model :: GaussianModel where
  "degree1_model =
     \<lparr>sh_degree = 1, xyz = [[1, 2, 3]], features_dc = Features3 [[[0, 0, 0]]],
      features_rest = Some [[[1, 2, 3], [4, 5, 6], [7, 8, 9]]],
      scaling = [[0, 0, 0]], rotation = [[1, 0, 0, 0]],
      opacity = [[0]], scaling_activation_type = Exp\<rparr>"

definition rest_file :: ply where
  "rest_file =
     \<lparr>properties = map (\<lambda>n. (n, F4))
        [''x'', ''y'', ''z'', ''opacity'', ''f_dc_0'', ''f_dc_1'', ''f_dc_2'',
         ''f_rest_0'', ''f_rest_1'', ''f_rest_2'', ''f_rest_3'', ''f_rest_4'',
         ''f_rest_5'', ''f_rest_6'', ''f_rest_7'', ''f_rest_8''],
      elements = [[1, 2, 3, 0, 0, 0, 0, 10, 11, 12, 13, 14, 15, 16, 17, 18]]\<rparr>"

definition bad_suffix_file :: ply where
  "bad_suffix_file =
     \<lparr>properties = map (\<lambda>n. (n, F4))
        [''x'', ''y'', ''z'', ''opacity'', ''f_dc_0'', ''f_dc_1'', ''f_dc_2'', ''f_rest_a''],
      elements = [[1, 2, 3, 0, 0, 0, 0, 10]]\<rparr>"

definition bad_suffix_file9 :: ply where
  "bad_suffix_file9 =
     \<lparr>properties = map (\<lambda>n. (n, F4))
        [''x'', ''y'', ''z'', ''opacity'', ''f_dc_0'', ''f_dc_1'', ''f_dc_2'',
         ''f_rest_0'', ''f_rest_1'', ''f_rest_2'', ''f_rest_3'', ''f_rest_4'',
         ''f_rest_5'', ''f_rest_6'', ''f_rest_7'', ''f_rest_a''],
      elements = [[1, 2, 3, 0, 0, 0, 0, 10, 11, 12, 13, 14, 15, 16, 17, 18]]\<rparr>"

section \<open>Properties\<close>

subsection \<open>Colour conversion\<close>

text \<open>
  Claim C6. Over the reals the two colour conversions are exact inverses of each other:
  RGB2SH (SH2RGB x) = x and SH2RGB (RGB2SH x) = x for every x, where
  RGB2SH rgb = (rgb - 0.5) / C0, SH2RGB sh = sh * C0 + 0.5 and C0 = 0.28209479177387814.
\<close>

theorem rgb_sh_inverse:
  "RGB2SH (SH2RGB x) = x \<and> SH2RGB (RGB2SH x) = x
   \<and> RGB2SH y = (y - 0.5) / C0 \<and> SH2RGB y = y * C0 + 0.5 \<and> C0 = 0.28209479177387814"
proof -
  have nz: "C0 \<noteq> 0"
    by (simp add: C0_def)
  have "RGB2SH (SH2RGB x) = x"
    using nz by (simp add: RGB2SH_def SH2RGB_def)
  moreover have "SH2RGB (RGB2SH x) = x"
    using nz by (simp add: RGB2SH_def SH2RGB_def)
  moreover have "RGB2SH y = (y - 0.5) / C0" "SH2RGB y = y * C0 + 0.5"
    by (simp_all add: RGB2SH_def SH2RGB_def)
  moreover have "C0 = 0.28209479177387814"
    by (rule C0_def)
  ultimately show ?thesis
    by blast
qed

subsection \<open>Rotation matrices\<close>

lemma build_rotation_row_quat:
  "build_rotation_row [a, b, c, d] =
     (let n = sqrt (a * a + b * b + c * c + d * d) in quat_matrix (a / n) (b / n) (c / n) (d / n))"
  by (simp add: build_rotation_row_def quat_matrix_def Let_def)

lemma quat_matrix_neg: "quat_matrix (- r) (- x) (- y) (- z) = quat_matrix r x y z"
  by (simp add: quat_matrix_def)

lemma quat_matrix_orth:
  fixes r x y z :: real
  assumes u: "r * r + x * x + y * y + z * z = 1"
  shows "matmul3 (quat_matrix r x y z) (transpose3 (quat_matrix r x y z)) = identity3"
  unfolding quat_matrix_def matmul3_def transpose3_def identity3_def
  apply simp
  using u apply (intro conjI)
  apply algebra+
  done

lemma quat_matrix_orth':
  fixes r x y z :: real
  assumes u: "r * r + x * x + y * y + z * z = 1"
  shows "matmul3 (transpose3 (quat_matrix r x y z)) (quat_matrix r x y z) = identity3"
  unfolding quat_matrix_def matmul3_def transpose3_def identity3_def
  apply simp
  using u apply (intro conjI)
  apply algebra+
  done

lemma quat_matrix_det:
  fixes r x y z :: real
  assumes u: "r * r + x * x + y * y + z * z = 1"
  shows "det3 (quat_matrix r x y z) = 1"
  unfolding quat_matrix_def det3_def
  apply simp
  using u apply algebra
  done

text \<open>
  Scaling a quaternion by a nonzero factor scales its norm by the absolute value of the
  factor, so the normalised quaternion at most changes sign, and the matrix is quadratic in it.
\<close>

lemma build_rotation_row_scale:
  fixes a b c d k :: real
  assumes k: "k \<noteq> 0"
  shows "build_rotation_row [k * a, k * b, k * c, k * d] = build_rotation_row [a, b, c, d]"
proof -
  define n where "n = sqrt (a * a + b * b + c * c + d * d)"
  have sq: "(k * a) * (k * a) + (k * b) * (k * b) + (k * c) * (k * c) + (k * d) * (k * d)
            = (k * k) * (a * a + b * b + c * c + d * d)"
    by (simp add: algebra_simps)
  have norm: "sqrt ((k * a) * (k * a) + (k * b) * (k * b) + (k * c) * (k * c) + (k * d) * (k * d))
              = \<bar>k\<bar> * n"
    unfolding sq n_def by (simp add: real_sqrt_mult)
  show ?thesis
  proof (cases "0 < k")
    case True
    then have "\<And>v. k * v / (\<bar>k\<bar> * n) = v / n"
      by simp
    then show ?thesis
      unfolding build_rotation_row_quat norm Let_def n_def[symmetric] by simp
  next
    case False
    with k have "k < 0" by simp
    then have "\<And>v. k * v / (\<bar>k\<bar> * n) = - (v / n)"
      by simp
    then show ?thesis
      unfolding build_rotation_row_quat norm Let_def n_def[symmetric]
      by (simp add: quat_matrix_neg)
  qed
qed

lemma build_rotation_update:
  assumes "i < length r" and "length row' = length (r ! i)"
    and "build_rotation_row row' = build_rotation_row (r ! i)"
  shows "build_rotation (r[i := row']) = build_rotation r"
proof -
  let ?P = "\<lambda>row::real list. length row < 4"
  have "map ?P (r[i := row']) = map ?P r"
    using assms(1,2) by (simp add: map_update list_update_same_conv)
  then have "(True \<in> set (map ?P (r[i := row']))) = (True \<in> set (map ?P r))"
    by simp
  then have ex: "list_ex ?P (r[i := row']) = list_ex ?P r"
    unfolding list_ex_iff by (simp add: image_iff)
  have "map build_rotation_row (r[i := row']) = map build_rotation_row r"
    using assms(1,3) by (simp add: map_update list_update_same_conv)
  with ex show ?thesis
    by (simp add: build_rotation_def)
qed

text \<open>
  Claim C5. For every unit quaternion q the matrix build_rotation q is orthonormal (its
  product with its transpose is the identity, on either side) and has determinant 1, exactly
  over the reals; and flipping the sign of a quaternion does not change the matrix:
  build_rotation (-q) = build_rotation q.
\<close>

theorem build_rotation_unit_orthonormal:
  "(r * r + x * x + y * y + z * z = 1 \<longrightarrow>
      (\<exists>R. build_rotation [[r, x, y, z]] = Inr [R]
           \<and> matmul3 R (transpose3 R) = identity3
           \<and> matmul3 (transpose3 R) R = identity3
           \<and> det3 R = 1))
   \<and> build_rotation [[- r, - x, - y, - z]] = build_rotation [[r, x, y, z]]"
proof -
  have "build_rotation_row [- 1 * r, - 1 * x, - 1 * y, - 1 * z] = build_rotation_row [r, x, y, z]"
    by (rule build_rotation_row_scale) simp
  then have neg: "build_rotation [[- r, - x, - y, - z]] = build_rotation [[r, x, y, z]]"
    by (simp add: build_rotation_def)
  have "\<exists>R. build_rotation [[r, x, y, z]] = Inr [R]
           \<and> matmul3 R (transpose3 R) = identity3
           \<and> matmul3 (transpose3 R) R = identity3
           \<and> det3 R = 1"
    if u: "r * r + x * x + y * y + z * z = 1"
  proof -
    have row: "build_rotation_row [r, x, y, z] = quat_matrix r x y z"
      using u by (simp add: build_rotation_row_quat)
    show ?thesis
      using row quat_matrix_orth[OF u] quat_matrix_orth'[OF u] quat_matrix_det[OF u]
      by (simp add: build_rotation_def)
  qed
  with neg show ?thesis
    by blast
qed

text \<open>
  Claim C5, at the unit quaternion (0, 1, 0, 0).
\<close>

theorem build_rotation_unit_orthonormal_witness:
  "(\<exists>R. build_rotation [[0, 1, 0, 0]] = Inr [R]
           \<and> matmul3 R (transpose3 R) = identity3
           \<and> matmul3 (transpose3 R) R = identity3
           \<and> det3 R = 1)
   \<and> build_rotation [[- 0, - 1, - 0, - 0]] = build_rotation [[0, 1, 0, 0]]"
  using build_rotation_unit_orthonormal[of 0 1 0 0] by simp

text \<open>
  Claim C10, as amended. In exact real arithmetic: for every quaternion q of nonzero norm and
  every nonzero scalar c, build_rotation (c q) = build_rotation q. Hence, when one row of the raw rotation tensor is
  rescaled by a nonzero scalar, the covariance kernel (for any scaling and modifier) and
  get_covariance return what they returned before: the covariance depends on a raw rotation
  row only through its direction.
\<close>

theorem rotation_scale_invariant:
  assumes c: "c \<noteq> 0"
    and nz: "a * a + x * x + y * y + z * z \<noteq> 0"
    and i: "i < length (rotation m)"
    and row: "rotation m ! i = [a, x, y, z]"
  shows "build_rotation [[c * a, c * x, c * y, c * z]] = build_rotation [[a, x, y, z]]
       \<and> build_covariance_from_scaling_rotation s k ((rotation m)[i := [c * a, c * x, c * y, c * z]])
           = build_covariance_from_scaling_rotation s k (rotation m)
       \<and> get_covariance (m\<lparr>rotation := (rotation m)[i := [c * a, c * x, c * y, c * z]]\<rparr>) k
           = get_covariance m k"
proof -
  have r1: "build_rotation_row [c * a, c * x, c * y, c * z] = build_rotation_row [a, x, y, z]"
    using c by (rule build_rotation_row_scale)
  have upd: "build_rotation ((rotation m)[i := [c * a, c * x, c * y, c * z]])
             = build_rotation (rotation m)"
    by (rule build_rotation_update) (use i row r1 in simp_all)
  have "build_rotation [[c * a, c * x, c * y, c * z]] = build_rotation [[a, x, y, z]]"
    using r1 by (simp add: build_rotation_def)
  moreover have "build_covariance_from_scaling_rotation s' k ((rotation m)[i := [c * a, c * x, c * y, c * z]])
           = build_covariance_from_scaling_rotation s' k (rotation m)" for s'
    using upd by (simp add: build_covariance_from_scaling_rotation_def build_scaling_rotation_def)
  ultimately show ?thesis
    by (simp add: get_covariance_def get_scaling_def)
qed

text \<open>
  Claim C10 as amended, at the quaternion (1, 1, 1, 1) scaled by 2, with the scale vector
  (1, 2, 3): both rows give the covariance entries (9, 0, 0, 1, 0, 4).
\<close>

theorem rotation_scale_invariant_witness:
  "build_rotation [[2 * 1, 2 * 1, 2 * 1, 2 * 1]] = build_rotation [[1, 1, 1, 1]]
   \<and> build_covariance_from_scaling_rotation [[1, 2, 3]] 1
         ([[1, 1, 1, 1]][0 := [2 * 1, 2 * 1, 2 * 1, 2 * 1]])
       = Inr [[9, 0, 0, 1, 0, 4]]
   \<and> get_covariance
         (\<lparr>sh_degree = 0, xyz = [[0, 0, 0]], features_dc = Features2 [[0, 0, 0]],
           features_rest = None, scaling = [[0, 1, 2]], rotation = [[1, 1, 1, 1]],
           opacity = [[0]], scaling_activation_type = Exp\<rparr>
          \<lparr>rotation := [[1, 1, 1, 1]][0 := [2 * 1, 2 * 1, 2 * 1, 2 * 1]]\<rparr>) 1
       = get_covariance
           \<lparr>sh_degree = 0, xyz = [[0, 0, 0]], features_dc = Features2 [[0, 0, 0]],
            features_rest = None, scaling = [[0, 1, 2]], rotation = [[1, 1, 1, 1]],
            opacity = [[0]], scaling_activation_type = Exp\<rparr> 1"
proof -
  have k: "build_covariance_from_scaling_rotation [[1, 2, 3]] 1 [[1, 1, 1, 1]]
           = Inr [[9, 0, 0, 1, 0, 4]]"
    by (simp add: build_covariance_from_scaling_rotation_def build_scaling_rotation_def
        build_rotation_def build_rotation_row_def batched_matmul_def matmul3_def transpose3_def
        strip_symmetric_def strip_lowerdiag_def)
  have nz: "(1 :: real) * 1 + 1 * 1 + 1 * 1 + 1 * 1 \<noteq> 0"
    by simp
  from rotation_scale_invariant[of 2 1 1 1 1 0
      "\<lparr>sh_degree = 0, xyz = [[0, 0, 0]], features_dc = Features2 [[0, 0, 0]],
        features_rest = None, scaling = [[0, 1, 2]], rotation = [[1, 1, 1, 1]],
        opacity = [[0]], scaling_activation_type = Exp\<rparr>" "[[1, 2, 3]]" 1, OF _ nz]
  show ?thesis
    using k by simp
qed

lemma round32_zero: "round32 0 = Finite 0"
  by (simp add: round32_def pow2_def round_half_even_def Let_def)

lemma round32_one: "round32 1 = Finite 1"
  by (simp add: round32_def pow2_def round_half_even_def Let_def)

lemma round32_underflow: "round32 (1 / 2 ^ 200) = Finite 0"
  by (simp add: round32_def pow2_def round_half_even_def Let_def)

lemma round32_small: "round32 (1 / 2 ^ 100) = Finite (1 / 2 ^ 100)"
proof -
  have "log 2 ((2 :: real) ^ 100) = real 100 * log 2 2"
    by (rule log_nat_power) simp
  then have "log 2 (1 / (2 :: real) ^ 100) = - 100"
    by (simp add: log_divide)
  then have l: "\<lfloor>log 2 \<bar>1 / (2 :: real) ^ 100\<bar>\<rfloor> = - 100"
    by simp
  have big: "\<not> \<bar>1 / 2 ^ 100 :: real\<bar> < pow2 (- 126)"
    by (simp add: pow2_def)
  show ?thesis
    unfolding round32_def Let_def l using big
    by (simp add: pow2_def round_half_even_def)
qed

text \<open>
  Claim C10 is stated of the code, whose arithmetic is single precision. There the quaternion
  q = (1, 0, 0, 0) and the nonzero scalar c = 2^-100 refute it: c q is representable, its
  square underflows to zero, the norm is zero and the division gives NaN, while q itself
  gives the identity matrix.
\<close>

theorem rotation_scale_f32_counterexample:
  "map (f32_mul (Finite (1 / 2 ^ 100))) [Finite 1, Finite 0, Finite 0, Finite 0]
     = [Finite (1 / 2 ^ 100), Finite 0, Finite 0, Finite 0]
   \<and> build_rotation_f32 [[Finite (1 / 2 ^ 100), Finite 0, Finite 0, Finite 0]]
       = Inr [[[NaN, NaN, NaN], [NaN, NaN, NaN], [NaN, NaN, NaN]]]
   \<and> build_rotation_f32 [[Finite 1, Finite 0, Finite 0, Finite 0]]
       = Inr [[[Finite 1, Finite 0, Finite 0], [Finite 0, Finite 1, Finite 0],
               [Finite 0, Finite 0, Finite 1]]]
   \<and> build_rotation_f32 [[Finite (1 / 2 ^ 100), Finite 0, Finite 0, Finite 0]]
       \<noteq> build_rotation_f32 [[Finite 1, Finite 0, Finite 0, Finite 0]]
   \<and> (1 / 2 ^ 100 :: real) \<noteq> 0"
proof -
  have sq: "(1 / 2 ^ 100) * (1 / 2 ^ 100) = (1 / 2 ^ 200 :: real)"
    by simp
  have a: "map (f32_mul (Finite (1 / 2 ^ 100))) [Finite 1, Finite 0, Finite 0, Finite 0]
     = [Finite (1 / 2 ^ 100), Finite 0, Finite 0, Finite 0]"
    using round32_small round32_zero by simp
  have b: "build_rotation_f32 [[Finite (1 / 2 ^ 100), Finite 0, Finite 0, Finite 0]]
       = Inr [[[NaN, NaN, NaN], [NaN, NaN, NaN], [NaN, NaN, NaN]]]"
    using round32_underflow round32_zero
    by (simp add: build_rotation_f32_def build_rotation_row_f32_def f32_sub_def Let_def)
  have c: "build_rotation_f32 [[Finite 1, Finite 0, Finite 0, Finite 0]]
       = Inr [[[Finite 1, Finite 0, Finite 0], [Finite 0, Finite 1, Finite 0],
               [Finite 0, Finite 0, Finite 1]]]"
    using round32_one round32_zero
    by (simp add: build_rotation_f32_def build_rotation_row_f32_def f32_sub_def Let_def)
  from a b c show ?thesis
    by simp
qed

subsection \<open>Covariance\<close>

lemma sum3: "(\<Sum>i<(3::nat). f i) = f 0 + f 1 + (f 2 :: real)"
  by (simp add: eval_nat_numeral lessThan_Suc)

text \<open>
  The quadratic form of the packed entries of \<open>L L\<^sup>T\<close> is a sum of three squares.
\<close>

lemma gram_psd:
  fixes a b c d e f g h' i :: real
  shows "0 \<le> quadratic_form
            (unpack_symmetric
              [a * a + b * b + c * c, a * d + b * e + c * f, a * g + b * h' + c * i,
               d * d + e * e + f * f, d * g + e * h' + f * i, g * g + h' * h' + i * i])
            [u, v, t]"
proof -
  have "quadratic_form
            (unpack_symmetric
              [a * a + b * b + c * c, a * d + b * e + c * f, a * g + b * h' + c * i,
               d * d + e * e + f * f, d * g + e * h' + f * i, g * g + h' * h' + i * i])
            [u, v, t]
        = (u * a + v * d + t * g)\<^sup>2 + (u * b + v * e + t * h')\<^sup>2 + (u * c + v * f + t * i)\<^sup>2"
    by (simp add: quadratic_form_def unpack_symmetric_def sum3 power2_eq_square algebra_simps)
  then show ?thesis
    by simp
qed

lemma covariance_row:
  "build_covariance_from_scaling_rotation [[s0, s1, s2]] k [q] =
     (if length q < 4 then Inl IndexError
      else Inr [let R = build_rotation_row q;
                    L = (\<lambda>i j. R ! i ! j * (k * [s0, s1, s2] ! j));
                    S = (\<lambda>i j. \<Sum>n<3. L i n * L j n)
                in [S 0 0, S 0 1, S 0 2, S 1 1, S 1 2, S 2 2]])"
  by (simp add: build_covariance_from_scaling_rotation_def build_scaling_rotation_def
      build_rotation_def batched_matmul_def matmul3_def transpose3_def
      strip_symmetric_def strip_lowerdiag_def sum3 Let_def)

text \<open>
  Claim C4. For every scale vector (s0, s1, s2), modifier k and quaternion q of nonzero norm,
  the covariance kernel returns the six entries xx, xy, xz, yy, yz, zz (in this order) of
  \<open>L L\<^sup>T\<close> where \<open>L = build_rotation q * diag (k * s)\<close>, and the symmetric matrix these six
  entries describe is positive semi-definite.
\<close>

theorem covariance_kernel_psd:
  assumes nz: "r * r + x * x + y * y + z * z \<noteq> 0"
  shows "\<exists>c. build_covariance_from_scaling_rotation [[s0, s1, s2]] k [[r, x, y, z]] = Inr [c]
           \<and> c = (let R = build_rotation_row [r, x, y, z];
                      L = (\<lambda>i j. R ! i ! j * (k * [s0, s1, s2] ! j));
                      S = (\<lambda>i j. \<Sum>n<3. L i n * L j n)
                  in [S 0 0, S 0 1, S 0 2, S 1 1, S 1 2, S 2 2])
           \<and> (\<forall>u v t. 0 \<le> quadratic_form (unpack_symmetric c) [u, v, t])"
proof -
  obtain a b c d e f g h' i where R: "build_rotation_row [r, x, y, z] = [[a, b, c], [d, e, f], [g, h', i]]"
    by (simp add: build_rotation_row_def Let_def)
  have "0 \<le> quadratic_form (unpack_symmetric
           (let R = build_rotation_row [r, x, y, z];
                L = (\<lambda>i j. R ! i ! j * (k * [s0, s1, s2] ! j));
                S = (\<lambda>i j. \<Sum>n<3. L i n * L j n)
            in [S 0 0, S 0 1, S 0 2, S 1 1, S 1 2, S 2 2])) [u, v, t]" for u v t
    using gram_psd[of "a * (k * s0)" "b * (k * s1)" "c * (k * s2)"
                      "d * (k * s0)" "e * (k * s1)" "f * (k * s2)"
                      "g * (k * s0)" "h' * (k * s1)" "i * (k * s2)" u v t]
    by (simp add: R sum3 Let_def)
  then show ?thesis
    by (simp add: covariance_row)
qed

text \<open>
  Claim C4, at scale (1, 2, 3), modifier 1 and the identity quaternion.
\<close>

theorem covariance_kernel_psd_witness:
  "\<exists>c. build_covariance_from_scaling_rotation [[1, 2, 3]] 1 [[1, 0, 0, 0]] = Inr [c]
       \<and> c = [1, 0, 0, 4, 0, 9]
       \<and> (\<forall>u v t. 0 \<le> quadratic_form (unpack_symmetric c) [u, v, t])"
  using covariance_kernel_psd[of 1 0 0 0 1 2 3 1]
  by (simp add: build_rotation_row_def sum3)

subsection \<open>Camera\<close>

text \<open>
  Claim C7. For every camera constructed from intrinsics (fx, fy, cx, cy) with fx and fy
  nonzero: tanfovX = 1 / (2 fx), tanfovY = 1 / (2 fy), shiftX = 2 cx - 1 and
  shiftY = 2 cy - 1; in particular fx = fy = 0.5 and cx = cy = 0.5 give shiftX = shiftY = 0
  and tanfovX = tanfovY = 1.
\<close>

theorem camera_intrinsics:
  assumes "Camera_init matrix_inverse c2w [fx, fy, cx, cy] height width = Inr cam"
    and "fx \<noteq> 0" and "fy \<noteq> 0"
  shows "tanfovX cam = 1 / (2 * fx) \<and> tanfovY cam = 1 / (2 * fy)
       \<and> shiftX cam = 2 * cx - 1 \<and> shiftY cam = 2 * cy - 1
       \<and> (fx = 0.5 \<and> fy = 0.5 \<and> cx = 0.5 \<and> cy = 0.5 \<longrightarrow>
            shiftX cam = 0 \<and> shiftY cam = 0 \<and> tanfovX cam = 1 \<and> tanfovY cam = 1)"
  using assms by (auto simp add: Camera_init_def Let_def split: option.splits)

text \<open>
  Claim C7, for the identity pose and fx = fy = cx = cy = 0.5.
\<close>

theorem camera_intrinsics_witness:
  "\<exists>cam. Camera_init (\<lambda>M. Some M) identity4 [0.5, 0.5, 0.5, 0.5] 256 256 = Inr cam
     \<and> shiftX cam = 0 \<and> shiftY cam = 0 \<and> tanfovX cam = 1 \<and> tanfovY cam = 1"
proof -
  obtain cam where c: "Camera_init (\<lambda>M. Some M) identity4 [0.5, 0.5, 0.5, 0.5] 256 256 = Inr cam"
    by (simp add: Camera_init_def Let_def)
  from camera_intrinsics[OF c] show ?thesis
    using c by simp
qed

subsection \<open>Construction and bulk replacement\<close>

text \<open>
  Claim C9 says that construction with a degree outside [0, 4] is a fatal error that creates no
  model. The constructor stores the degree unchecked: degrees 5 and -1 both give a model.
\<close>

theorem init_any_degree_counterexample:
  "GaussianModel_init 5 ''exp'' 0.001 0.3 0.1
     = Inr \<lparr>sh_degree = 5, xyz = [], features_dc = Features2 [], features_rest = Some [],
            scaling = [], rotation = [], opacity = [], scaling_activation_type = Exp\<rparr>
   \<and> GaussianModel_init (- 1) ''exp'' 0.001 0.3 0.1
     = Inr \<lparr>sh_degree = - 1, xyz = [], features_dc = Features2 [], features_rest = None,
            scaling = [], rotation = [], opacity = [], scaling_activation_type = Exp\<rparr>"
  by (simp add: GaussianModel_init_def setup_functions_def)

text \<open>
  Claim C9, as amended. Construction does not validate the degree: for every integer degree
  and each of the three policy names it succeeds and yields a model of that degree, with a
  rest field exactly when the degree is positive; it fails (NotImplementedError) exactly for
  any other policy name.
\<close>

theorem init_fails_only_on_policy:
  "(ty \<in> {''exp'', ''softplus'', ''sigmoid''} \<longrightarrow>
      (\<exists>m. GaussianModel_init deg ty mn mx mu = Inr m \<and> sh_degree m = deg
           \<and> (features_rest m = None \<longleftrightarrow> deg \<le> 0)))
   \<and> (ty \<notin> {''exp'', ''softplus'', ''sigmoid''} \<longrightarrow>
        GaussianModel_init deg ty mn mx mu = Inl NotImplementedError)"
  by (auto simp add: GaussianModel_init_def setup_functions_def)

text \<open>
  Claim C9 as amended, at degree 7 with the sigmoid policy and at an unknown policy name.
\<close>

theorem init_fails_only_on_policy_witness:
  "(\<exists>m. GaussianModel_init 7 ''sigmoid'' 0.001 0.3 0.1 = Inr m \<and> sh_degree m = 7
           \<and> (features_rest m = None \<longleftrightarrow> (7::int) \<le> 0))
   \<and> GaussianModel_init 2 ''relu'' 0.001 0.3 0.1 = Inl NotImplementedError"
  using init_fails_only_on_policy[of "''sigmoid''" 7 "0.001" "0.3" "0.1"]
        init_fails_only_on_policy[of "''relu''" 2 "0.001" "0.3" "0.1"]
  by simp

text \<open>
  What \<^verbatim>\<open>set_data\<close> stores for a positive degree: the whole feature tensor as the DC field
  and the slice \<^verbatim>\<open>features[:, 1:, :]\<close> as the rest field.
\<close>

lemma set_data_positive_degree:
  assumes "sh_degree m > 0"
  shows "set_data m xyz' (Features3 f) scaling' rotation' opacity'
         = Inr (m\<lparr>xyz := xyz', features_dc := Features3 f,
                  features_rest := Some (map (drop 1) f),
                  scaling := scaling', rotation := rotation', opacity := opacity'\<rparr>)"
  using assms by (simp add: set_data_def)

text \<open>
  A model of degree 1 filled by \<^verbatim>\<open>set_data\<close> with a feature tensor of four coefficients
  cannot be saved: the DC field then has twelve columns where the file has three colour bytes.
\<close>

lemma set_data_then_save_fails:
  "set_data degree1_model [[1, 2, 3]]
     (Features3 [[[1, 2, 3], [4, 5, 6], [7, 8, 9], [10, 11, 12]]])
     [[0, 0, 0]] [[1, 0, 0, 0]] [[0]]
   = Inr (degree1_model\<lparr>features_dc := Features3 [[[1, 2, 3], [4, 5, 6], [7, 8, 9], [10, 11, 12]]],
                         features_rest := Some [[[4, 5, 6], [7, 8, 9], [10, 11, 12]]]\<rparr>)
   \<and> save_ply (\<lambda>v. v) (\<lambda>t. [])
        (degree1_model\<lparr>features_dc := Features3 [[[1, 2, 3], [4, 5, 6], [7, 8, 9], [10, 11, 12]]],
                        features_rest := Some [[[4, 5, 6], [7, 8, 9], [10, 11, 12]]]\<rparr>)
        False True False
     = Inl ValueError"
  by (simp add: set_data_def degree1_model_def save_ply_def dc_columns_def rest_columns_def
      construct_dtypes_def dc_field_count_def rest_field_count_def pad_rest_def
      flatten_transposed_def transpose_mat_def shape1_def shape2_def concatenate_axis1_def
      named_fields_def)

text \<open>
  Claim C2 says that after set_data on a model of positive degree the DC colour field is the
  slice features[:, 0, :]. At degree 1 with a 1 x 4 x 3 feature tensor the code stores the
  whole tensor as the DC field, which is neither the slice (1 x 3) nor the slice with its
  coefficient axis kept (1 x 1 x 3).
\<close>

theorem set_data_dc_is_whole_tensor:
  "map_sum id features_dc
     (set_data
        \<lparr>sh_degree = 1, xyz = [], features_dc = Features2 [], features_rest = Some [],
         scaling = [], rotation = [], opacity = [], scaling_activation_type = Exp\<rparr>
        [[0, 0, 0]]
        (Features3 [[[1, 2, 3], [4, 5, 6], [7, 8, 9], [10, 11, 12]]])
        [[0, 0, 0]] [[1, 0, 0, 0]] [[0]])
   = Inr (Features3 [[[1, 2, 3], [4, 5, 6], [7, 8, 9], [10, 11, 12]]])
   \<and> Features3 [[[1, 2, 3], [4, 5, 6], [7, 8, 9], [10, 11, 12]]] \<noteq> Features2 [[1, 2, 3]]
   \<and> Features3 [[[1, 2, 3], [4, 5, 6], [7, 8, 9], [10, 11, 12]]] \<noteq> Features3 [[[1, 2, 3]]]"
  by (simp add: set_data_def)

subsection \<open>Loading the rest coefficients\<close>

lemma index_of_mem: "a \<in> set xs \<Longrightarrow> \<exists>i. index_of a xs = Some i"
  by (induction xs) auto

lemma field_indices_not_assertion: "field_indices ps ns \<noteq> Inl AssertionError"
  by (induction ns) (auto split: option.splits sum.splits)

lemma field_indices_present:
  "set ns \<subseteq> set ps \<Longrightarrow> \<exists>js. field_indices ps ns = Inr js \<and> length js = length ns"
proof (induction ns)
  case Nil
  then show ?case by simp
next
  case (Cons n ns)
  then obtain js where "field_indices ps ns = Inr js" "length js = length ns"
    by auto
  moreover obtain i where "index_of n ps = Some i"
    using Cons.prems index_of_mem[of n ps] by auto
  ultimately show ?case by simp
qed

lemma field_indices_nth:
  "field_indices ps ns = Inr js \<Longrightarrow>
     length js = length ns \<and> (\<forall>j<length ns. index_of (ns ! j) ps = Some (js ! j))"
proof (induction ns arbitrary: js)
  case Nil
  then show ?case by simp
next
  case (Cons n ns)
  then obtain i js' where i: "index_of n ps = Some i" and js': "field_indices ps ns = Inr js'"
    and js: "js = i # js'"
    by (auto split: option.splits sum.splits)
  from Cons.IH[OF js'] have ih: "length js' = length ns"
    "\<forall>j<length ns. index_of (ns ! j) ps = Some (js' ! j)"
    by auto
  show ?case
    using i ih js by (auto simp add: nth_Cons split: nat.splits)
qed

lemma sorted_by_suffix_not_assertion: "sorted_by_suffix ns \<noteq> Inl AssertionError"
  by (simp add: sorted_by_suffix_def)

lemma read_sorted_not_assertion: "read_sorted f pre \<noteq> Inl AssertionError"
  using field_indices_not_assertion sorted_by_suffix_not_assertion
  by (auto simp add: read_sorted_def split: sum.splits)

lemma transpose_reshape:
  assumes len: "length flat = 3 * k1"
  shows "transpose_mat (reshape 3 k1 flat)
           = map (\<lambda>j. [flat ! j, flat ! (k1 + j), flat ! (2 * k1 + j)]) [0..<k1]"
proof -
  have r: "reshape 3 k1 flat = [take k1 flat, take k1 (drop k1 flat), take k1 (drop (2 * k1) flat)]"
    by (simp add: reshape_def eval_nat_numeral)
  have s: "shape1 [take k1 flat, take k1 (drop k1 flat), take k1 (drop (2 * k1) flat)] = k1"
    using len by (simp add: shape1_def)
  have "transpose_mat (reshape 3 k1 flat)
          = map (\<lambda>j. [take k1 flat ! j, take k1 (drop k1 flat) ! j,
                        take k1 (drop (2 * k1) flat) ! j]) [0..<k1]"
    unfolding transpose_mat_def r s by simp
  also have "\<dots> = map (\<lambda>j. [flat ! j, flat ! (k1 + j), flat ! (2 * k1 + j)]) [0..<k1]"
    using len by (intro map_cong) simp_all
  finally show ?thesis .
qed

lemma transpose_reshape_nth:
  assumes len: "length flat = 3 * k1" and k: "k < k1" and c: "c < 3"
  shows "transpose_mat (reshape 3 k1 flat) ! k ! c = flat ! (c * k1 + k)"
proof -
  have "c = 0 \<or> c = 1 \<or> c = 2"
    using c by auto
  then show ?thesis
    using k by (auto simp add: transpose_reshape[OF len])
qed

lemma load_ply_fixed:
  assumes "field_indices (property_names f)
             [''x'', ''y'', ''z'', ''opacity'', ''f_dc_0'', ''f_dc_1'', ''f_dc_2''] = Inr fixed"
  shows "load_ply m f =
     (case (if sh_degree m > 0 then map_sum id Some (load_rest f (sh_degree m)) else Inr None) of
        Inl e \<Rightarrow> Inl e
      | Inr features_extra \<Rightarrow>
     (case read_sorted f ''scale_'' of
        Inl e \<Rightarrow> Inl e
      | Inr scales \<Rightarrow>
     (case read_sorted f ''rot'' of
        Inl e \<Rightarrow> Inl e
      | Inr rots \<Rightarrow>
          Inr (m\<lparr>xyz := gather f (take 3 fixed),
                  features_dc := Features3 (map (\<lambda>row. [row]) (gather f (drop 4 fixed))),
                  features_rest := (case features_extra of
                                      None \<Rightarrow> features_rest m
                                    | Some fe \<Rightarrow> Some fe),
                  opacity := gather f [fixed ! 3],
                  scaling := scales,
                  rotation := rots\<rparr>))))"
  by (simp only: load_ply_def assms sum.case)

text \<open>
  Claim C8, as amended. For a model of degree d > 0 and a file that has the fields x, y, z,
  opacity, f_dc_0, f_dc_1, f_dc_2 and in which every property whose name starts with f_rest_
  ends in a decimal integer after its last underscore: load_ply fails with the assertion error
  exactly when the number of such properties differs from 3 (d + 1)^2 - 3. When it succeeds,
  the rest field has one (d + 1)^2 - 1 by 3 matrix per row of the file, and its entry at
  coefficient k and channel c is the value of the property at position c ((d + 1)^2 - 1) + k
  of those properties sorted by their integer suffix.
\<close>

theorem load_ply_rest_count:
  assumes deg: "sh_degree m > 0"
    and present: "set [''x'', ''y'', ''z'', ''opacity'', ''f_dc_0'', ''f_dc_1'', ''f_dc_2'']
                    \<subseteq> set (property_names f)"
    and numeric: "\<forall>x \<in> set (names_with_prefix f ''f_rest_''). suffix_key x \<noteq> None"
  shows "(load_ply m f = Inl AssertionError
            \<longleftrightarrow> int (length (names_with_prefix f ''f_rest_'')) \<noteq> 3 * (sh_degree m + 1) ^ 2 - 3)
       \<and> (\<forall>m'. load_ply m f = Inr m' \<longrightarrow>
            (\<exists>fe. features_rest m' = Some fe \<and> length fe = length (elements f)
               \<and> (\<forall>n < length (elements f).
                     length (fe ! n) = nat ((sh_degree m + 1) ^ 2 - 1)
                   \<and> (\<forall>k < nat ((sh_degree m + 1) ^ 2 - 1).
                        length (fe ! n ! k) = 3
                      \<and> (\<forall>c < 3.
                           Some (fe ! n ! k ! c)
                           = field_value f n
                               (sort_key (\<lambda>x. the (suffix_key x)) (names_with_prefix f ''f_rest_'')
                                  ! (c * nat ((sh_degree m + 1) ^ 2 - 1) + k)))))))"
proof -
  define names where "names = sort_key (\<lambda>x. the (suffix_key x)) (names_with_prefix f ''f_rest_'')"
  define k1 where "k1 = nat ((sh_degree m + 1) ^ 2 - 1)"
  obtain fixed where fixed: "field_indices (property_names f)
      [''x'', ''y'', ''z'', ''opacity'', ''f_dc_0'', ''f_dc_1'', ''f_dc_2''] = Inr fixed"
    using field_indices_present[OF present] by blast
  have sorted_names: "sorted_by_suffix (names_with_prefix f ''f_rest_'') = Inr names"
    using numeric by (simp add: sorted_by_suffix_def names_def list_all_iff)
  have len_names: "length names = length (names_with_prefix f ''f_rest_'')"
    by (simp add: names_def)
  have k1: "int (3 * k1) = 3 * (sh_degree m + 1) ^ 2 - 3"
  proof -
    have "1 * 1 \<le> (sh_degree m + 1) * (sh_degree m + 1)"
      using deg by (intro mult_mono) simp_all
    then have "1 \<le> (sh_degree m + 1) ^ 2"
      by (simp add: power2_eq_square)
    then have "int k1 = (sh_degree m + 1) ^ 2 - 1"
      unfolding k1_def by linarith
    then show ?thesis
      by linarith
  qed
  show ?thesis
  proof (cases "int (length names) = 3 * (sh_degree m + 1) ^ 2 - 3")
    case False
    then have "load_rest f (sh_degree m) = Inl AssertionError"
      by (simp add: load_rest_def sorted_names)
    then have "load_ply m f = Inl AssertionError"
      using deg by (simp add: load_ply_fixed[OF fixed])
    then show ?thesis
      using False len_names by simp
  next
    case True
    then have cnt: "length names = 3 * k1"
      using k1 by linarith
    have rest: "load_rest f (sh_degree m) =
        (case field_indices (property_names f) names of
           Inl e \<Rightarrow> Inl e
         | Inr idxs \<Rightarrow> Inr (map (\<lambda>row. transpose_mat (reshape 3 k1 row)) (gather f idxs)))"
      using True unfolding k1_def by (simp add: load_rest_def sorted_names)
    have no_assert: "load_ply m f \<noteq> Inl AssertionError"
      using deg field_indices_not_assertion[of "property_names f" names]
        read_sorted_not_assertion[of f "''scale_''"] read_sorted_not_assertion[of f "''rot''"]
      by (auto simp add: load_ply_fixed[OF fixed] rest split: sum.splits)
    have content: "\<exists>fe. features_rest m' = Some fe \<and> length fe = length (elements f)
               \<and> (\<forall>n < length (elements f).
                     length (fe ! n) = k1
                   \<and> (\<forall>k < k1. length (fe ! n ! k) = 3
                      \<and> (\<forall>c < 3. Some (fe ! n ! k ! c) = field_value f n (names ! (c * k1 + k)))))"
      if ok: "load_ply m f = Inr m'" for m'
    proof -
      from ok obtain idxs where idxs: "field_indices (property_names f) names = Inr idxs"
        and fe: "features_rest m' = Some (map (\<lambda>row. transpose_mat (reshape 3 k1 row)) (gather f idxs))"
        using deg by (auto simp add: load_ply_fixed[OF fixed] rest split: sum.splits)
      from field_indices_nth[OF idxs] cnt
      have li: "length idxs = 3 * k1"
        and ix: "\<And>j. j < 3 * k1 \<Longrightarrow> index_of (names ! j) (property_names f) = Some (idxs ! j)"
        by auto
      let ?fe = "map (\<lambda>row. transpose_mat (reshape 3 k1 row)) (gather f idxs)"
      have "length ?fe = length (elements f)"
        by (simp add: gather_def)
      moreover have "length (?fe ! n) = k1
                   \<and> (\<forall>k < k1. length (?fe ! n ! k) = 3
                      \<and> (\<forall>c < 3. Some (?fe ! n ! k ! c) = field_value f n (names ! (c * k1 + k))))"
        if n: "n < length (elements f)" for n
      proof -
        let ?flat = "map (\<lambda>i. elements f ! n ! i) idxs"
        have fl: "length ?flat = 3 * k1"
          by (simp add: li)
        have fn: "?fe ! n = transpose_mat (reshape 3 k1 ?flat)"
          using n by (simp add: gather_def)
        have "Some (?fe ! n ! k ! c) = field_value f n (names ! (c * k1 + k))"
          if k: "k < k1" and c: "c < 3" for k c
        proof -
          have j: "c * k1 + k < 3 * k1"
          proof -
            have "c * k1 + k < c * k1 + k1" using k by simp
            also have "\<dots> = (c + 1) * k1" by simp
            also have "\<dots> \<le> 3 * k1" using c by (intro mult_le_mono1) simp
            finally show ?thesis .
          qed
          have "?fe ! n ! k ! c = ?flat ! (c * k1 + k)"
            unfolding fn by (rule transpose_reshape_nth[OF fl k c])
          also have "\<dots> = elements f ! n ! (idxs ! (c * k1 + k))"
            using j li by simp
          finally show ?thesis
            using ix[OF j] by (simp add: field_value_def)
        qed
        then show ?thesis
          unfolding fn by (simp add: transpose_reshape[OF fl])
      qed
      ultimately show ?thesis
        using fe by blast
    qed
    show ?thesis
      using no_assert True len_names content
      unfolding names_def[symmetric] k1_def[symmetric] by simp
  qed
qed

text \<open>
  Claim C8 as amended, for a model of degree 1 and a file with nine rest properties.
\<close>

theorem load_ply_rest_count_witness:
  "load_ply degree1_model rest_file \<noteq> Inl AssertionError
   \<and> length (names_with_prefix rest_file ''f_rest_'') = 9"
proof -
  have deg: "sh_degree degree1_model > 0"
    by (simp add: degree1_model_def)
  have present: "set [''x'', ''y'', ''z'', ''opacity'', ''f_dc_0'', ''f_dc_1'', ''f_dc_2'']
                    \<subseteq> set (property_names rest_file)"
    by code_simp
  have numeric: "\<forall>x \<in> set (names_with_prefix rest_file ''f_rest_''). suffix_key x \<noteq> None"
    by code_simp
  have count: "length (names_with_prefix rest_file ''f_rest_'') = 9"
    by code_simp
  from load_ply_rest_count[OF deg present numeric] count show ?thesis
    by (simp add: degree1_model_def)
qed

text \<open>
  Claim C8 as stated fails on files with a rest property whose suffix is no integer, since
  sorting the names raises ValueError before the count is asserted: with one property
  f_rest_a the count differs from 9 and yet the failure is not the assertion; with nine rest
  properties, one of them f_rest_a, the count is right and loading fails all the same.
\<close>

theorem load_ply_bad_suffix_counterexample:
  "load_ply degree1_model bad_suffix_file = Inl ValueError
   \<and> int (length (names_with_prefix bad_suffix_file ''f_rest_''))
        \<noteq> 3 * (sh_degree degree1_model + 1) ^ 2 - 3
   \<and> load_ply degree1_model bad_suffix_file9 = Inl ValueError
   \<and> int (length (names_with_prefix bad_suffix_file9 ''f_rest_''))
        = 3 * (sh_degree degree1_model + 1) ^ 2 - 3"
  by code_simp

subsection \<open>Saving and reloading a model of degree 0\<close>

lemma named_fields_dc3:
  "named_fields ''f_dc_'' F4 3 = [(''f_dc_0'', F4), (''f_dc_1'', F4), (''f_dc_2'', F4)]"
  by code_simp

lemma named_fields_scale3:
  "named_fields ''scale_'' F4 3 = [(''scale_0'', F4), (''scale_1'', F4), (''scale_2'', F4)]"
  by code_simp

lemma named_fields_rot4:
  "named_fields ''rot_'' F4 4 = [(''rot_0'', F4), (''rot_1'', F4), (''rot_2'', F4), (''rot_3'', F4)]"
  by code_simp

lemma named_fields_0: "named_fields pre ty 0 = []"
  by (simp add: named_fields_def)

lemma standard_fixed:
  "field_indices (map fst standard_dtypes)
     [''x'', ''y'', ''z'', ''opacity'', ''f_dc_0'', ''f_dc_1'', ''f_dc_2'']
   = Inr [0, 1, 2, 9, 6, 7, 8]"
  by code_simp

lemma standard_scale:
  "sorted_by_suffix (filter (\<lambda>x. startswith x ''scale_'') (map fst standard_dtypes))
   = Inr [''scale_0'', ''scale_1'', ''scale_2'']"
  by code_simp

lemma standard_scale_idx:
  "field_indices (map fst standard_dtypes) [''scale_0'', ''scale_1'', ''scale_2''] = Inr [10, 11, 12]"
  by code_simp

lemma standard_rot:
  "sorted_by_suffix (filter (\<lambda>x. startswith x ''rot'') (map fst standard_dtypes))
   = Inr [''rot_0'', ''rot_1'', ''rot_2'', ''rot_3'']"
  by code_simp

lemma standard_rot_idx:
  "field_indices (map fst standard_dtypes) [''rot_0'', ''rot_1'', ''rot_2'', ''rot_3'']
   = Inr [13, 14, 15, 16]"
  by code_simp

text \<open>
  Loading a file with the standard property list into a model of degree 0.
\<close>

lemma load_ply_standard:
  assumes "sh_degree m0 = 0"
  shows "load_ply m0 \<lparr>properties = standard_dtypes, elements = E\<rparr> =
     Inr (m0\<lparr>xyz := map (\<lambda>row. [row ! 0, row ! 1, row ! 2]) E,
             features_dc := Features3 (map (\<lambda>row. [[row ! 6, row ! 7, row ! 8]]) E),
             features_rest := features_rest m0,
             opacity := map (\<lambda>row. [row ! 9]) E,
             scaling := map (\<lambda>row. [row ! 10, row ! 11, row ! 12]) E,
             rotation := map (\<lambda>row. [row ! 13, row ! 14, row ! 15, row ! 16]) E\<rparr>)"
proof -
  have pn: "property_names \<lparr>properties = standard_dtypes, elements = E\<rparr> = map fst standard_dtypes"
    by (simp add: property_names_def)
  have sc: "read_sorted \<lparr>properties = standard_dtypes, elements = E\<rparr> ''scale_''
            = Inr (map (\<lambda>row. [row ! 10, row ! 11, row ! 12]) E)"
    by (simp add: read_sorted_def names_with_prefix_def pn standard_scale standard_scale_idx
        gather_def del: field_indices.simps)
  have rt: "read_sorted \<lparr>properties = standard_dtypes, elements = E\<rparr> ''rot''
            = Inr (map (\<lambda>row. [row ! 13, row ! 14, row ! 15, row ! 16]) E)"
    by (simp add: read_sorted_def names_with_prefix_def pn standard_rot standard_rot_idx
        gather_def del: field_indices.simps)
  show ?thesis
    unfolding load_ply_def pn standard_fixed
    using assms by (simp add: sc rt gather_def)
qed

lemma row3: "length xs = 3 \<Longrightarrow> xs = [xs ! 0, xs ! 1, xs ! 2]"
  by (auto simp add: length_Suc_conv eval_nat_numeral)

lemma row1: "length xs = 1 \<Longrightarrow> xs = [xs ! 0]"
  by (auto simp add: length_Suc_conv)

lemma row4: "length xs = 4 \<Longrightarrow> xs = [xs ! 0, xs ! 1, xs ! 2, xs ! 3]"
  by (auto simp add: length_Suc_conv eval_nat_numeral)

lemma rows_of_width_nth: "rows_of_width k t \<Longrightarrow> n < length t \<Longrightarrow> length (t ! n) = k"
  by (simp add: rows_of_width_def list_all_length)

lemma shape1_rows: "rows_of_width k t \<Longrightarrow> t \<noteq> [] \<Longrightarrow> shape1 t = k"
  by (cases t) (simp_all add: rows_of_width_def shape1_def)

lemma store_clip_uint8: "store half U1 (clip_uint8 v) = clip_uint8 v"
proof -
  have "0 \<le> \<lfloor>min 255 (max 0 v)\<rfloor>" "\<lfloor>min 255 (max 0 v)\<rfloor> \<le> 255"
    by (simp_all add: le_floor_iff floor_le_iff min_def max_def)
  then show ?thesis
    by (simp add: store_def clip_uint8_def)
qed

lemma rebuild3:
  assumes "rows_of_width 3 t"
  shows "map (\<lambda>n. [t ! n ! 0, t ! n ! 1, t ! n ! 2]) [0..<length t] = t"
proof (rule nth_equalityI)
  show "length (map (\<lambda>n. [t ! n ! 0, t ! n ! 1, t ! n ! 2]) [0..<length t]) = length t"
    by simp
next
  fix i assume "i < length (map (\<lambda>n. [t ! n ! 0, t ! n ! 1, t ! n ! 2]) [0..<length t])"
  then have i: "i < length t" by simp
  from row3[OF rows_of_width_nth[OF assms i]]
  show "map (\<lambda>n. [t ! n ! 0, t ! n ! 1, t ! n ! 2]) [0..<length t] ! i = t ! i"
    using i by simp
qed

lemma rebuild1:
  assumes "rows_of_width 1 t"
  shows "map (\<lambda>n. [t ! n ! 0]) [0..<length t] = t"
proof (rule nth_equalityI)
  show "length (map (\<lambda>n. [t ! n ! 0]) [0..<length t]) = length t"
    by simp
next
  fix i assume "i < length (map (\<lambda>n. [t ! n ! 0]) [0..<length t])"
  then have i: "i < length t" by simp
  from row1[OF rows_of_width_nth[OF assms i]]
  show "map (\<lambda>n. [t ! n ! 0]) [0..<length t] ! i = t ! i"
    using i by simp
qed

lemma rebuild4:
  assumes "rows_of_width 4 t"
  shows "map (\<lambda>n. [t ! n ! 0, t ! n ! 1, t ! n ! 2, t ! n ! 3]) [0..<length t] = t"
proof (rule nth_equalityI)
  show "length (map (\<lambda>n. [t ! n ! 0, t ! n ! 1, t ! n ! 2, t ! n ! 3]) [0..<length t]) = length t"
    by simp
next
  fix i assume "i < length (map (\<lambda>n. [t ! n ! 0, t ! n ! 1, t ! n ! 2, t ! n ! 3]) [0..<length t])"
  then have i: "i < length t" by simp
  from row4[OF rows_of_width_nth[OF assms i]]
  show "map (\<lambda>n. [t ! n ! 0, t ! n ! 1, t ! n ! 2, t ! n ! 3]) [0..<length t] ! i = t ! i"
    using i by simp
qed

lemma standard_row:
  assumes "length x = 3" "length d = 3" "length p = 1" "length s = 3" "length q = 4"
  shows "map2 (\<lambda>(nm, ty) v. store half ty v) standard_dtypes
           (x @ map (\<lambda>v. clip_uint8 (SH2RGB v * 255)) d @ d @ p @ map e s @ q)
         = [x ! 0, x ! 1, x ! 2,
            clip_uint8 (SH2RGB (d ! 0) * 255), clip_uint8 (SH2RGB (d ! 1) * 255),
            clip_uint8 (SH2RGB (d ! 2) * 255),
            d ! 0, d ! 1, d ! 2, p ! 0, e (s ! 0), e (s ! 1), e (s ! 2),
            q ! 0, q ! 1, q ! 2, q ! 3]"
proof -
  obtain x0 x1 x2 where x: "x = [x0, x1, x2]"
    using row3[OF assms(1)] by blast
  obtain d0 d1 d2 where d: "d = [d0, d1, d2]"
    using row3[OF assms(2)] by blast
  obtain p0 where p: "p = [p0]"
    using row1[OF assms(3)] by blast
  obtain s0 s1 s2 where s: "s = [s0, s1, s2]"
    using row3[OF assms(4)] by blast
  obtain q0 q1 q2 q3 where q: "q = [q0, q1, q2, q3]"
    using row4[OF assms(5)] by blast
  show ?thesis
    unfolding x d p s q
    by (simp add: standard_dtypes_def store_clip_uint8) (simp add: store_def)
qed

text \<open>
  The file written by the standard variant for a model of degree 0 with \<open>N > 0\<close> primitives,
  positions \<open>N x 3\<close>, colours \<open>N x 3\<close>, opacities \<open>N x 1\<close>, scales \<open>N x 3\<close> and rotations
  \<open>N x 4\<close>.
\<close>

lemma save_ply_standard_degree0:
  assumes deg: "sh_degree m = 0" and dc: "features_dc m = Features2 dc"
    and ne: "xyz m \<noteq> []" and x3: "rows_of_width 3 (xyz m)"
    and dn: "length dc = length (xyz m)" and d3: "rows_of_width 3 dc"
    and pn: "length (opacity m) = length (xyz m)" and p1: "rows_of_width 1 (opacity m)"
    and sn: "length (scaling m) = length (xyz m)" and s3: "rows_of_width 3 (scaling m)"
    and qn: "length (rotation m) = length (xyz m)" and q4: "rows_of_width 4 (rotation m)"
  shows "save_ply half viridis m False False False =
     Inr \<lparr>properties = standard_dtypes,
          elements = map (\<lambda>n.
            [xyz m ! n ! 0, xyz m ! n ! 1, xyz m ! n ! 2,
             clip_uint8 (SH2RGB (dc ! n ! 0) * 255), clip_uint8 (SH2RGB (dc ! n ! 1) * 255),
             clip_uint8 (SH2RGB (dc ! n ! 2) * 255),
             dc ! n ! 0, dc ! n ! 1, dc ! n ! 2, opacity m ! n ! 0,
             encode_scale (scaling_activation_type m) (scaling m ! n ! 0),
             encode_scale (scaling_activation_type m) (scaling m ! n ! 1),
             encode_scale (scaling_activation_type m) (scaling m ! n ! 2),
             rotation m ! n ! 0, rotation m ! n ! 1, rotation m ! n ! 2, rotation m ! n ! 3])
            [0..<length (xyz m)]\<rparr>"
proof -
  let ?N = "length (xyz m)"
  let ?c = "\<lambda>v. clip_uint8 (SH2RGB v * 255)"
  let ?e = "encode_scale (scaling_activation_type m)"
  let ?row = "\<lambda>n. xyz m ! n @ map ?c (dc ! n) @ dc ! n @ opacity m ! n
                    @ map ?e (scaling m ! n) @ rotation m ! n"
  have dcne: "dc \<noteq> []" and scne: "scaling m \<noteq> []" and rone: "rotation m \<noteq> []"
    using ne dn sn qn by auto
  have dt: "construct_dtypes m False False = Inr standard_dtypes"
    using deg dc shape1_rows[OF d3 dcne] shape1_rows[OF s3 scne] shape1_rows[OF q4 rone]
    by (simp add: construct_dtypes_def dc_field_count_def rest_field_count_def
        named_fields_dc3 named_fields_scale3 named_fields_rot4 named_fields_0 standard_dtypes_def)
  have cat: "concatenate_axis1
               [xyz m, map (map ?c) dc, dc, opacity m, map (map ?e) (scaling m), rotation m]
             = Inr (map ?row [0..<?N])"
    using dn pn sn qn by (simp add: concatenate_axis1_def)
  have len: "length (?row n) = 17" if "n < ?N" for n
    using that rows_of_width_nth[OF x3, of n] rows_of_width_nth[OF d3, of n]
      rows_of_width_nth[OF p1, of n] rows_of_width_nth[OF s3, of n] rows_of_width_nth[OF q4, of n]
      dn pn sn qn
    by simp
  have wide: "list_all (\<lambda>row. length row = length standard_dtypes) (map ?row [0..<?N])"
    using len by (simp add: list_all_iff standard_dtypes_def)
  have rows: "map (\<lambda>row. map2 (\<lambda>(nm, ty) v. store half ty v) standard_dtypes row) (map ?row [0..<?N])
      = map (\<lambda>n.
            [xyz m ! n ! 0, xyz m ! n ! 1, xyz m ! n ! 2,
             ?c (dc ! n ! 0), ?c (dc ! n ! 1), ?c (dc ! n ! 2),
             dc ! n ! 0, dc ! n ! 1, dc ! n ! 2, opacity m ! n ! 0,
             ?e (scaling m ! n ! 0), ?e (scaling m ! n ! 1), ?e (scaling m ! n ! 2),
             rotation m ! n ! 0, rotation m ! n ! 1, rotation m ! n ! 2, rotation m ! n ! 3])
            [0..<?N]"
    unfolding map_map comp_def
  proof (rule map_cong[OF refl])
    fix n assume "n \<in> set [0..<?N]"
    then have n: "n < ?N" by simp
    show "map2 (\<lambda>(nm, ty) v. store half ty v) standard_dtypes (?row n) =
            [xyz m ! n ! 0, xyz m ! n ! 1, xyz m ! n ! 2,
             ?c (dc ! n ! 0), ?c (dc ! n ! 1), ?c (dc ! n ! 2),
             dc ! n ! 0, dc ! n ! 1, dc ! n ! 2, opacity m ! n ! 0,
             ?e (scaling m ! n ! 0), ?e (scaling m ! n ! 1), ?e (scaling m ! n ! 2),
             rotation m ! n ! 0, rotation m ! n ! 1, rotation m ! n ! 2, rotation m ! n ! 3]"
      by (rule standard_row)
         (use n dn pn sn qn rows_of_width_nth[OF x3] rows_of_width_nth[OF d3]
            rows_of_width_nth[OF p1] rows_of_width_nth[OF s3] rows_of_width_nth[OF q4]
          in simp_all)
  qed
  have "save_ply half viridis m False False False =
          Inr \<lparr>properties = standard_dtypes,
               elements = map (\<lambda>row. map2 (\<lambda>(nm, ty) v. store half ty v) standard_dtypes row)
                            (map ?row [0..<?N])\<rparr>"
    using deg dc wide
    by (simp add: save_ply_def dc_columns_def rest_columns_def dt cat Let_def)
  then show ?thesis
    by (simp only: rows)
qed

lemma round_trip_standard:
  assumes deg: "sh_degree m = 0" and dc: "features_dc m = Features2 dc"
    and ne: "xyz m \<noteq> []" and x3: "rows_of_width 3 (xyz m)"
    and dn: "length dc = length (xyz m)" and d3: "rows_of_width 3 dc"
    and pn: "length (opacity m) = length (xyz m)" and p1: "rows_of_width 1 (opacity m)"
    and sn: "length (scaling m) = length (xyz m)" and s3: "rows_of_width 3 (scaling m)"
    and qn: "length (rotation m) = length (xyz m)" and q4: "rows_of_width 4 (rotation m)"
    and fresh: "sh_degree fresh = 0"
  shows "round_trip half viridis m fresh =
     Inr (fresh\<lparr>xyz := xyz m,
                features_dc := Features3 (map (\<lambda>row. [row]) dc),
                features_rest := features_rest fresh,
                opacity := opacity m,
                scaling := map (map (encode_scale (scaling_activation_type m))) (scaling m),
                rotation := rotation m\<rparr>)"
proof -
  let ?N = "length (xyz m)"
  let ?e = "encode_scale (scaling_activation_type m)"
  have a: "map (\<lambda>n. [xyz m ! n ! 0, xyz m ! n ! 1, xyz m ! n ! 2]) [0..<?N] = xyz m"
    by (rule rebuild3[OF x3])
  have "map (\<lambda>row. [row]) (map (\<lambda>n. [dc ! n ! 0, dc ! n ! 1, dc ! n ! 2]) [0..<length dc])
        = map (\<lambda>row. [row]) dc"
    by (simp only: rebuild3[OF d3])
  then have b: "map (\<lambda>n. [[dc ! n ! 0, dc ! n ! 1, dc ! n ! 2]]) [0..<?N] = map (\<lambda>row. [row]) dc"
    by (simp add: dn comp_def)
  have c: "map (\<lambda>n. [opacity m ! n ! 0]) [0..<?N] = opacity m"
    using rebuild1[OF p1] by (simp add: pn)
  have "map (map ?e) (map (\<lambda>n. [scaling m ! n ! 0, scaling m ! n ! 1, scaling m ! n ! 2])
                        [0..<length (scaling m)])
        = map (map ?e) (scaling m)"
    by (simp only: rebuild3[OF s3])
  then have d: "map (\<lambda>n. [?e (scaling m ! n ! 0), ?e (scaling m ! n ! 1), ?e (scaling m ! n ! 2)])
                  [0..<?N] = map (map ?e) (scaling m)"
    by (simp add: sn comp_def)
  have e: "map (\<lambda>n. [rotation m ! n ! 0, rotation m ! n ! 1, rotation m ! n ! 2, rotation m ! n ! 3])
             [0..<?N] = rotation m"
    using rebuild4[OF q4] by (simp add: qn)
  show ?thesis
    unfolding round_trip_def
      save_ply_standard_degree0[OF deg dc ne x3 dn d3 pn p1 sn s3 qn q4]
    using a b c d e by (simp add: load_ply_standard[OF fresh] comp_def)
qed

lemma decode_encode_exp: "decode_scale Exp (encode_scale Exp v) = decode_scale Exp v"
  by (simp add: decode_scale_def encode_scale_def)

lemma encode_scale_log:
  "encode_scale act v = (if act = Exp then v else ln (decode_scale act v))"
  by (cases act) (simp_all add: decode_scale_def encode_scale_def)

text \<open>
  Decoding the logarithm of a decoded scale is in general not the decoded scale: with the
  sigmoid policy on [0, 1] the raw scale 0 decodes to 1/2, and its stored logarithm to 1/3.
\<close>

lemma sigmoid_round_trip_differs:
  "decode_scale (Sigmoid 0 1) 0 = 1 / 2
   \<and> decode_scale (Sigmoid 0 1) (encode_scale (Sigmoid 0 1) 0) = 1 / 3"
proof -
  have "exp (- ln (1 / 2 :: real)) = 2"
    by (simp add: ln_div exp_minus)
  then show ?thesis
    by (simp add: decode_scale_def encode_scale_def sigmoid_def)
qed

text \<open>
  Claim C1, as amended. For a model of degree 0 with at least one primitive, positions
  \<open>N x 3\<close>, three colour channels (DC field \<open>N x 3\<close>), opacities \<open>N x 1\<close>, scales \<open>N x 3\<close> and
  rotations \<open>N x 4\<close>, saving in the standard variant and loading into a freshly constructed
  model of degree 0 with the same policy succeeds and reproduces the positions, the
  opacities and the DC colour values (as an \<open>N x 1 x 3\<close> tensor). With the policy exp the
  decoded scaling of the reloaded model equals that of the original. With the other
  policies the reloaded raw scale is the logarithm of the original decoded scale.
\<close>

theorem round_trip_degree0:
  assumes deg: "sh_degree m = 0" and dc: "features_dc m = Features2 dc"
    and ne: "xyz m \<noteq> []" and x3: "rows_of_width 3 (xyz m)"
    and dn: "length dc = length (xyz m)" and d3: "rows_of_width 3 dc"
    and pn: "length (opacity m) = length (xyz m)" and p1: "rows_of_width 1 (opacity m)"
    and sn: "length (scaling m) = length (xyz m)" and s3: "rows_of_width 3 (scaling m)"
    and qn: "length (rotation m) = length (xyz m)" and q4: "rows_of_width 4 (rotation m)"
    and fresh: "GaussianModel_init 0 ty mn mx mu = Inr fresh"
    and policy: "scaling_activation_type fresh = scaling_activation_type m"
  shows "\<exists>m'. round_trip half viridis m fresh = Inr m'
           \<and> xyz m' = xyz m \<and> opacity m' = opacity m
           \<and> features_dc m' = Features3 (map (\<lambda>row. [row]) dc)
           \<and> (scaling_activation_type m = Exp \<longrightarrow> get_scaling m' = get_scaling m)
           \<and> scaling m' =
               (if scaling_activation_type m = Exp then scaling m
                else map (map (\<lambda>v. ln (decode_scale (scaling_activation_type m) v))) (scaling m))"
proof -
  have f0: "sh_degree fresh = 0"
    using fresh by (auto simp add: GaussianModel_init_def split: sum.splits)
  have enc: "map (map (encode_scale (scaling_activation_type m))) (scaling m) =
               (if scaling_activation_type m = Exp then scaling m
                else map (map (\<lambda>v. ln (decode_scale (scaling_activation_type m) v))) (scaling m))"
    by (simp add: encode_scale_log[abs_def])
  show ?thesis
    unfolding round_trip_standard[OF deg dc ne x3 dn d3 pn p1 sn s3 qn q4 f0]
    using policy enc by (simp add: get_scaling_def)
qed

text \<open>
  Claim C1 as amended, for a model of two primitives with the policy exp.
\<close>

theorem round_trip_degree0_witness:
  "\<exists>fresh m'. GaussianModel_init 0 ''exp'' 0.001 0.3 0.1 = Inr fresh
     \<and> round_trip (\<lambda>v. v) (\<lambda>t. []) exp_model fresh = Inr m'
     \<and> xyz m' = [[1, 2, 3], [4, 5, 6]] \<and> opacity m' = [[0], [0]]
     \<and> features_dc m' = Features3 [[[0, 0, 0]], [[1, 1, 1]]]
     \<and> get_scaling m' = get_scaling exp_model"
proof -
  obtain fresh where fresh: "GaussianModel_init 0 ''exp'' 0.001 0.3 0.1 = Inr fresh"
    and pol: "scaling_activation_type fresh = Exp"
    by (simp add: GaussianModel_init_def setup_functions_def)
  have "\<exists>m'. round_trip (\<lambda>v. v) (\<lambda>t. []) exp_model fresh = Inr m'
           \<and> xyz m' = xyz exp_model \<and> opacity m' = opacity exp_model
           \<and> features_dc m' = Features3 (map (\<lambda>row. [row]) [[0, 0, 0], [1, 1, 1]])
           \<and> (scaling_activation_type exp_model = Exp \<longrightarrow> get_scaling m' = get_scaling exp_model)
           \<and> scaling m' =
               (if scaling_activation_type exp_model = Exp then scaling exp_model
                else map (map (\<lambda>v. ln (decode_scale (scaling_activation_type exp_model) v)))
                       (scaling exp_model))"
    by (rule round_trip_degree0[OF _ _ _ _ _ _ _ _ _ _ _ _ fresh])
       (simp_all add: exp_model_def rows_of_width_def pol)
  then show ?thesis
    using fresh by (auto simp add: exp_model_def)
qed

text \<open>
  Claim C1 says that the decoded scaling is reproduced only if the policy is exp. A model
  with the sigmoid policy and equal bounds (scale_min_act = scale_max_act = 0.3) decodes
  every raw scale to 0.3, before and after the round trip.
\<close>

theorem round_trip_sigmoid_counterexample:
  "GaussianModel_init 0 ''sigmoid'' 0.3 0.3 0.1 = Inr fresh_sigmoid_model
   \<and> map_sum id get_scaling (round_trip (\<lambda>v. v) (\<lambda>t. []) constant_sigmoid_model fresh_sigmoid_model)
       = Inr (get_scaling constant_sigmoid_model)
   \<and> scaling_activation_type constant_sigmoid_model \<noteq> Exp"
proof -
  have "round_trip (\<lambda>v. v) (\<lambda>t. []) constant_sigmoid_model fresh_sigmoid_model =
     Inr (fresh_sigmoid_model\<lparr>xyz := xyz constant_sigmoid_model,
                features_dc := Features3 (map (\<lambda>row. [row]) [[0, 0, 0]]),
                features_rest := features_rest fresh_sigmoid_model,
                opacity := opacity constant_sigmoid_model,
                scaling := map (map (encode_scale (scaling_activation_type constant_sigmoid_model)))
                            (scaling constant_sigmoid_model),
                rotation := rotation constant_sigmoid_model\<rparr>)"
    by (rule round_trip_standard)
       (simp_all add: constant_sigmoid_model_def fresh_sigmoid_model_def rows_of_width_def)
  then show ?thesis
    by (simp add: GaussianModel_init_def setup_functions_def fresh_sigmoid_model_def
        constant_sigmoid_model_def get_scaling_def decode_scale_def)
qed

subsection \<open>Viewer padding\<close>

lemma viewer_rest_names:
  "filter (\<lambda>x. startswith x ''f_rest_'') (map fst viewer_dtypes) = map fst (named_fields ''f_rest_'' F4 45)"
  by code_simp

lemma viewer_rest_idx:
  "field_indices (map fst viewer_dtypes) (map fst (named_fields ''f_rest_'' F4 45)) = Inr [9..<54]"
  by code_simp

lemma named_rest_F4: "list_all (\<lambda>(nm, ty). ty = F4) (named_fields pre F4 n)"
  by (simp add: named_fields_def list_all_iff)

lemma store_F4_row:
  "list_all (\<lambda>(nm, ty). ty = F4) ds \<Longrightarrow> length ds = length vs \<Longrightarrow>
     map2 (\<lambda>(nm, ty) v. store half ty v) ds vs = vs"
proof (induction ds arbitrary: vs)
  case Nil
  then show ?case by simp
next
  case (Cons d ds)
  then obtain v vs' where "vs = v # vs'"
    by (cases vs) auto
  with Cons show ?case
    by (auto simp add: store_def)
qed

lemma length_flat_transposed:
  "length (concat (transpose_mat M)) = shape1 M * length M"
  by (simp add: transpose_mat_def length_concat comp_def sum_list_triv)

lemma mats_nth: "mats_of_shape k c t \<Longrightarrow> n < length t \<Longrightarrow> length (t ! n) = k \<and> rows_of_width c (t ! n)"
  by (simp add: mats_of_shape_def list_all_length)

lemma shape1_mat: "length M = k \<Longrightarrow> 0 < k \<Longrightarrow> rows_of_width c M \<Longrightarrow> shape1 M = c"
  by (cases M) (simp_all add: shape1_def rows_of_width_def)

lemma middle_segment:
  assumes "length a = k"
  shows "map (\<lambda>i. (a @ b @ c) ! i) [k..<k + length b] = b"
proof (rule nth_equalityI)
  show "length (map (\<lambda>i. (a @ b @ c) ! i) [k..<k + length b]) = length b"
    by simp
next
  fix i assume "i < length (map (\<lambda>i. (a @ b @ c) ! i) [k..<k + length b])"
  then have "i < length b" by simp
  then show "map (\<lambda>i. (a @ b @ c) ! i) [k..<k + length b] ! i = b ! i"
    using assms by (simp add: nth_append)
qed

lemma map2_append3:
  "length d1 = length a \<Longrightarrow> length d2 = length b \<Longrightarrow>
     map2 f (d1 @ d2 @ d3) (a @ b @ c) = map2 f d1 a @ map2 f d2 b @ map2 f d3 c"
  by simp

lemma viewer_row:
  assumes a: "length a = 9" and b: "length b = 45"
  shows "map (\<lambda>i. map2 (\<lambda>(nm, ty) v. store half ty v) viewer_dtypes (a @ b @ c) ! i) [9..<54] = b"
proof -
  let ?f = "\<lambda>(nm, ty) v. store half ty v"
  let ?D9 = "[(''x'', F4), (''y'', F4), (''z'', F4), (''red'', U1), (''green'', U1), (''blue'', U1),
      (''f_dc_0'', F4), (''f_dc_1'', F4), (''f_dc_2'', F4)]"
  let ?D8 = "[(''opacity'', F4), (''scale_0'', F4), (''scale_1'', F4), (''scale_2'', F4),
        (''rot_0'', F4), (''rot_1'', F4), (''rot_2'', F4), (''rot_3'', F4)]"
  have l45: "length (named_fields ''f_rest_'' F4 45) = length b"
    by (simp add: named_fields_def b)
  have "map2 ?f viewer_dtypes (a @ b @ c)
        = map2 ?f ?D9 a @ map2 ?f (named_fields ''f_rest_'' F4 45) b @ map2 ?f ?D8 c"
    unfolding viewer_dtypes_def by (rule map2_append3) (simp_all add: a l45)
  also have "map2 ?f (named_fields ''f_rest_'' F4 45) b = b"
    by (rule store_F4_row[OF named_rest_F4 l45])
  finally have row: "map2 ?f viewer_dtypes (a @ b @ c) = map2 ?f ?D9 a @ b @ map2 ?f ?D8 c" .
  have "map (\<lambda>i. (map2 ?f ?D9 a @ b @ map2 ?f ?D8 c) ! i) [9..<9 + length b] = b"
    by (rule middle_segment) (simp add: a)
  then show ?thesis
    by (simp only: row b) simp
qed

text \<open>
  The file written by the full-precision viewer variant for a model of degree 1: columns
  9..53 of every row are the nine rest coefficients of the primitive, channel by channel,
  followed by 36 zeros.
\<close>

lemma save_ply_viewer_degree1:
  assumes deg: "sh_degree m = 1"
    and dc: "features_dc m = Features3 dc" and rest: "features_rest m = Some fr"
    and ne: "xyz m \<noteq> []" and x3: "rows_of_width 3 (xyz m)"
    and dn: "length dc = length (xyz m)" and d13: "mats_of_shape 1 3 dc"
    and rn: "length fr = length (xyz m)" and r33: "mats_of_shape 3 3 fr"
    and pn: "length (opacity m) = length (xyz m)" and p1: "rows_of_width 1 (opacity m)"
    and sn: "length (scaling m) = length (xyz m)" and s3: "rows_of_width 3 (scaling m)"
    and qn: "length (rotation m) = length (xyz m)" and q4: "rows_of_width 4 (rotation m)"
  shows "\<exists>E. save_ply half viridis m False True False
                = Inr \<lparr>properties = viewer_dtypes, elements = E\<rparr>
             \<and> map (\<lambda>row. map (\<lambda>i. row ! i) [9..<54]) E
                = map (\<lambda>M. concat (transpose_mat M) @ replicate 36 0) fr"
proof -
  let ?N = "length (xyz m)"
  let ?c = "\<lambda>v. clip_uint8 (SH2RGB v * 255)"
  let ?e = "encode_scale (scaling_activation_type m)"
  let ?f = "\<lambda>(nm, ty) v. store half ty v"
  let ?fdc = "flatten_transposed dc"
  let ?pad = "map (\<lambda>M. concat (transpose_mat M) @ replicate 36 0) fr"
  let ?row = "\<lambda>n. xyz m ! n @ map ?c (?fdc ! n) @ ?fdc ! n @ ?pad ! n @ opacity m ! n
                    @ map ?e (scaling m ! n) @ rotation m ! n"
  have dcne: "dc \<noteq> []" and frne: "fr \<noteq> []" and scne: "scaling m \<noteq> []" and rone: "rotation m \<noteq> []"
    using ne dn rn sn qn by auto
  have flat_dc: "length (concat (transpose_mat M)) = 3" if "length M = 1" "rows_of_width 3 M" for M
    using that shape1_mat[of M 1 3] by (simp add: length_flat_transposed)
  have flat_fr: "length (concat (transpose_mat M)) = 9" if "length M = 3" "rows_of_width 3 M" for M
    using that shape1_mat[of M 3 3] by (simp add: length_flat_transposed)
  have fdc_n: "length (?fdc ! n) = 3" if "n < ?N" for n
    using that dn mats_nth[OF d13, of n] flat_dc by (simp add: flatten_transposed_def)
  have pad_n: "length (?pad ! n) = 45" if "n < ?N" for n
    using that rn mats_nth[OF r33, of n] flat_fr by simp
  have sh_dc: "shape1 dc = 1" "shape2 dc = 3"
  proof -
    obtain M ms where M: "dc = M # ms"
      using dcne by (cases dc) auto
    then have "length M = 1" "rows_of_width 3 M"
      using d13 by (simp_all add: mats_of_shape_def)
    then show "shape1 dc = 1" "shape2 dc = 3"
      using shape1_mat[of M 1 3] by (simp_all add: M shape1_def shape2_def)
  qed
  have sh_fr: "shape1 (flatten_transposed fr) = 9"
  proof -
    obtain M ms where M: "fr = M # ms"
      using frne by (cases fr) auto
    then have "length M = 3" "rows_of_width 3 M"
      using r33 by (simp_all add: mats_of_shape_def)
    then show ?thesis
      using flat_fr by (simp add: M shape1_def flatten_transposed_def)
  qed
  have dt: "construct_dtypes m False True = Inr viewer_dtypes"
    using deg dc sh_dc shape1_rows[OF s3 scne] shape1_rows[OF q4 rone]
    by (simp add: construct_dtypes_def dc_field_count_def rest_field_count_def
        named_fields_dc3 named_fields_scale3 named_fields_rot4 viewer_dtypes_def)
  have pad: "pad_rest ?N (flatten_transposed fr) = Inr ?pad"
    unfolding pad_rest_def sh_fr using rn by (simp add: flatten_transposed_def comp_def)
  have cat: "concatenate_axis1
               [xyz m, map (map ?c) ?fdc, ?fdc, ?pad, opacity m, map (map ?e) (scaling m), rotation m]
             = Inr (map ?row [0..<?N])"
    using dn rn pn sn qn
    by (simp add: concatenate_axis1_def flatten_transposed_def cong: map_cong)
  have len: "length (?row n) = 62" if "n < ?N" for n
    using that rows_of_width_nth[OF x3, of n] fdc_n[of n] pad_n[of n]
      rows_of_width_nth[OF p1, of n] rows_of_width_nth[OF s3, of n] rows_of_width_nth[OF q4, of n]
      pn sn qn
    by simp
  have lv: "length viewer_dtypes = 62"
    by (simp add: viewer_dtypes_def named_fields_def)
  have wide: "list_all (\<lambda>row. length row = length viewer_dtypes) (map ?row [0..<?N])"
    using len by (simp add: list_all_iff lv)
  have saved: "save_ply half viridis m False True False =
          Inr \<lparr>properties = viewer_dtypes,
               elements = map (\<lambda>row. map2 ?f viewer_dtypes row) (map ?row [0..<?N])\<rparr>"
    using deg dc rest wide
    by (simp add: save_ply_def dc_columns_def rest_columns_def dt pad cat Let_def)
  have seg: "map (\<lambda>i. map2 ?f viewer_dtypes (?row n) ! i) [9..<54] = ?pad ! n" if n: "n < ?N" for n
  proof -
    have "map (\<lambda>i. map2 ?f viewer_dtypes
                   ((xyz m ! n @ map ?c (?fdc ! n) @ ?fdc ! n) @ ?pad ! n
                    @ (opacity m ! n @ map ?e (scaling m ! n) @ rotation m ! n)) ! i) [9..<54]
          = ?pad ! n"
      by (rule viewer_row) (use n rows_of_width_nth[OF x3, of n] fdc_n[of n] pad_n[of n] in simp_all)
    then show ?thesis
      by simp
  qed
  have "map (\<lambda>row. map (\<lambda>i. row ! i) [9..<54])
          (map (\<lambda>row. map2 ?f viewer_dtypes row) (map ?row [0..<?N]))
        = map (\<lambda>n. ?pad ! n) [0..<?N]"
    unfolding map_map comp_def
    by (rule map_cong[OF refl]) (use seg in simp)
  also have "\<dots> = ?pad"
    using map_nth[of ?pad] rn by simp
  finally show ?thesis
    using saved by blast
qed

text \<open>
  Claim C3, as amended. For a model of degree 1 with at least one primitive, positions
  \<open>N x 3\<close>, DC field \<open>N x 1 x 3\<close>, rest field \<open>N x 3 x 3\<close>, opacities \<open>N x 1\<close>, scales
  \<open>N x 3\<close> and rotations \<open>N x 4\<close>, the full-precision viewer save succeeds and the file has
  exactly the 45 rest properties f_rest_0 .. f_rest_44; per primitive their values are the
  model's 9 rest coefficients (channel by channel) followed by 36 zeros.
\<close>

theorem viewer_padding_degree1:
  assumes deg: "sh_degree m = 1"
    and dc: "features_dc m = Features3 dc" and rest: "features_rest m = Some fr"
    and ne: "xyz m \<noteq> []" and x3: "rows_of_width 3 (xyz m)"
    and dn: "length dc = length (xyz m)" and d13: "mats_of_shape 1 3 dc"
    and rn: "length fr = length (xyz m)" and r33: "mats_of_shape 3 3 fr"
    and pn: "length (opacity m) = length (xyz m)" and p1: "rows_of_width 1 (opacity m)"
    and sn: "length (scaling m) = length (xyz m)" and s3: "rows_of_width 3 (scaling m)"
    and qn: "length (rotation m) = length (xyz m)" and q4: "rows_of_width 4 (rotation m)"
  shows "\<exists>f idxs. save_ply half viridis m False True False = Inr f
           \<and> names_with_prefix f ''f_rest_'' = map (\<lambda>i. ''f_rest_'' @ str_nat i) [0..<45]
           \<and> field_indices (property_names f) (names_with_prefix f ''f_rest_'') = Inr idxs
           \<and> gather f idxs = map (\<lambda>M. concat (transpose_mat M) @ replicate 36 0) fr
           \<and> (\<forall>M \<in> set fr. length (concat (transpose_mat M)) = 9)"
proof -
  obtain E where saved: "save_ply half viridis m False True False
                = Inr \<lparr>properties = viewer_dtypes, elements = E\<rparr>"
    and seg: "map (\<lambda>row. map (\<lambda>i. row ! i) [9..<54]) E
                = map (\<lambda>M. concat (transpose_mat M) @ replicate 36 0) fr"
    using save_ply_viewer_degree1[OF assms] by blast
  let ?f = "\<lparr>properties = viewer_dtypes, elements = E\<rparr>"
  have pn: "property_names ?f = map fst viewer_dtypes"
    by (simp add: property_names_def)
  have names: "names_with_prefix ?f ''f_rest_'' = map (\<lambda>i. ''f_rest_'' @ str_nat i) [0..<45]"
    unfolding names_with_prefix_def pn viewer_rest_names by (simp add: named_fields_def comp_def)
  have idx: "field_indices (property_names ?f) (names_with_prefix ?f ''f_rest_'') = Inr [9..<54]"
    unfolding names_with_prefix_def pn viewer_rest_names by (rule viewer_rest_idx)
  have g: "gather ?f [9..<54] = map (\<lambda>M. concat (transpose_mat M) @ replicate 36 0) fr"
    unfolding gather_def using seg by simp
  have nine: "length (concat (transpose_mat M)) = 9" if "M \<in> set fr" for M
  proof -
    from that r33 have "length M = 3" "rows_of_width 3 M"
      by (auto simp add: mats_of_shape_def list_all_iff)
    then show ?thesis
      using shape1_mat[of M 3 3] by (simp add: length_flat_transposed)
  qed
  show ?thesis
    using saved names idx g nine by blast
qed

text \<open>
  Claim C3 as amended, for a model of one primitive with rest coefficients 1 .. 9.
\<close>

theorem viewer_padding_degree1_witness:
  "\<exists>f idxs. save_ply (\<lambda>v. v) (\<lambda>t. []) degree1_model False True False = Inr f
           \<and> field_indices (property_names f) (names_with_prefix f ''f_rest_'') = Inr idxs
           \<and> gather f idxs = [[1, 4, 7, 2, 5, 8, 3, 6, 9] @ replicate 36 0]"
proof -
  have "\<exists>f idxs. save_ply (\<lambda>v. v) (\<lambda>t. []) degree1_model False True False = Inr f
           \<and> names_with_prefix f ''f_rest_'' = map (\<lambda>i. ''f_rest_'' @ str_nat i) [0..<45]
           \<and> field_indices (property_names f) (names_with_prefix f ''f_rest_'') = Inr idxs
           \<and> gather f idxs = map (\<lambda>M. concat (transpose_mat M) @ replicate 36 0)
                                [[[1, 2, 3], [4, 5, 6], [7, 8, 9]]]
           \<and> (\<forall>M \<in> set [[[1, 2, 3], [4, 5, 6], [7, 8, 9 :: real]]].
                 length (concat (transpose_mat M)) = 9)"
    by (rule viewer_padding_degree1[where dc = "[[[0, 0, 0]]]"])
       (simp_all add: degree1_model_def rows_of_width_def mats_of_shape_def)
  moreover have "concat (transpose_mat [[1, 2, 3], [4, 5, 6], [7, 8, 9 :: real]])
                 = [1, 4, 7, 2, 5, 8, 3, 6, 9]"
    by (simp add: transpose_mat_def shape1_def)
  ultimately show ?thesis
    by auto
qed

text \<open>
  Claim C3 counts 18 real and 27 zero coefficients. For a model of degree 1 whose nine rest
  coefficients are all nonzero, the 45 stored values hold 9 nonzero and 36 zero entries.
\<close>

theorem viewer_padding_counts_counterexample:
  "map_sum id
     (\<lambda>f. map (\<lambda>row. (length (filter (\<lambda>v. v \<noteq> 0) row), length (filter (\<lambda>v. v = 0) row)))
             (gather f [9..<54]))
     (save_ply (\<lambda>v. v) (\<lambda>t. []) degree1_model False True False)
   = Inr [(9, 36)]
   \<and> (9 :: nat, 36 :: nat) \<noteq> (18, 27)"
proof -
  obtain E where saved: "save_ply (\<lambda>v. v) (\<lambda>t. []) degree1_model False True False
                = Inr \<lparr>properties = viewer_dtypes, elements = E\<rparr>"
    and seg: "map (\<lambda>row. map (\<lambda>i. row ! i) [9..<54]) E
                = map (\<lambda>M. concat (transpose_mat M) @ replicate 36 0)
                    [[[1, 2, 3], [4, 5, 6], [7, 8, 9]]]"
    using save_ply_viewer_degree1[of degree1_model "[[[0, 0, 0]]]"
        "[[[1, 2, 3], [4, 5, 6], [7, 8, 9]]]" "\<lambda>v. v" "\<lambda>t. []"]
    by (auto simp add: degree1_model_def rows_of_width_def mats_of_shape_def)
  have "gather \<lparr>properties = viewer_dtypes, elements = E\<rparr> [9..<54]
        = [[1, 4, 7, 2, 5, 8, 3, 6, 9] @ replicate 36 0]"
    unfolding gather_def using seg by (simp add: transpose_mat_def shape1_def)
  then show ?thesis
    unfolding saved by simp
qed

end
